theory Spec2Isabelle
  imports Complex_Main "HOL-Library.Word"
begin

section \<open>Preliminaries: points, ordered dictionaries\<close>

text \<open>
  A vertex is a Python 3-tuple of floats. Coordinates are modelled as real numbers, that
  is, every arithmetic operation of the source is taken to be exact; statements whose
  truth would depend on the rounding of binary64 arithmetic are not made here.
\<close>

type_synonym point = "real \<times> real \<times> real"

definition px :: "point \<Rightarrow> real" where "px p = fst p"
definition py :: "point \<Rightarrow> real" where "py p = fst (snd p)"
definition pz :: "point \<Rightarrow> real" where "pz p = snd (snd p)"

text \<open>
  A Python \<^verbatim>\<open>dict\<close> keeps its keys in insertion order and holds every key once. It is
  modelled as an association list; \<open>dict_set d k v\<close> is the assignment \<^verbatim>\<open>d[k] = v\<close>: an
  existing key keeps its position and gets the new value, a new key is appended.
\<close>

fun dict_set :: "('k \<times> 'v) list \<Rightarrow> 'k \<Rightarrow> 'v \<Rightarrow> ('k \<times> 'v) list" where
  "dict_set [] k v = [(k, v)]"
| "dict_set ((k', v') # d) k v = (if k' = k then (k, v) # d else (k', v') # dict_set d k v)"

definition dict_get :: "('k \<times> 'v) list \<Rightarrow> 'k \<Rightarrow> 'v option" where
  "dict_get d k = map_of d k"

definition dict_keys :: "('k \<times> 'v) list \<Rightarrow> 'k list" where
  "dict_keys d = map fst d"

section \<open>geometry.py: GeometryProcessor\<close>

text \<open>The geometry record that the parser produces for one \<^verbatim>\<open>gml:id\<close>.\<close>

record geo_data =
  element_type :: string
  polygons :: "point list list"
  metadata :: "(string \<times> string option) list"

type_synonym geometries = "(string \<times> geo_data) list"

text \<open>\<^verbatim>\<open>numpy.ndarray.min(axis=0)\<close> and \<^verbatim>\<open>max(axis=0)\<close> on one column of a non-empty array.\<close>

definition col_min :: "real list \<Rightarrow> real" where
  "col_min xs = foldl min (hd xs) (tl xs)"

definition col_max :: "real list \<Rightarrow> real" where
  "col_max xs = foldl max (hd xs) (tl xs)"

definition collect_vertices :: "geometries \<Rightarrow> point list" where
  "collect_vertices all_geometries = concat (map (\<lambda>(gml_id, geo). concat (polygons geo)) all_geometries)"

definition bbox_center :: "point list \<Rightarrow> point" where
  "bbox_center vs =
     ((col_min (map px vs) + col_max (map px vs)) / 2,
      (col_min (map py vs) + col_max (map py vs)) / 2,
      (col_min (map pz vs) + col_max (map pz vs)) / 2)"

definition shift_point :: "point \<Rightarrow> point \<Rightarrow> point" where
  "shift_point c v = (px v - px c, py v - py c, pz v - pz c)"

definition center_record :: "point \<Rightarrow> geo_data \<Rightarrow> geo_data" where
  "center_record c geo =
     \<lparr> element_type = element_type geo,
       polygons = map (map (shift_point c)) (polygons geo),
       metadata = metadata geo \<rparr>"

definition center_coordinates :: "geometries \<Rightarrow> geometries \<times> point" where
  "center_coordinates all_geometries =
     (let all_vertices = collect_vertices all_geometries in
      if all_vertices = [] then (all_geometries, (0, 0, 0))
      else
        let center = bbox_center all_vertices;
            centered = foldl (\<lambda>acc (gml_id, geo). dict_set acc gml_id (center_record center geo))
                             [] all_geometries
        in (centered, center))"

text \<open>
  \<^verbatim>\<open>GeometryProcessor.triangulate_polygon\<close>: one trailing vertex equal to the first is
  removed, fewer than three remaining vertices give no triangle, otherwise the fan
  \<open>[0, i, i + 1]\<close> for \<open>i\<close> in \<^verbatim>\<open>range(1, n - 1)\<close>.
\<close>

definition strip_closing :: "'a list \<Rightarrow> 'a list" where
  "strip_closing vertices =
     (if length vertices > 1 \<and> hd vertices = last vertices then butlast vertices else vertices)"

definition triangulate_polygon :: "'a list \<Rightarrow> nat list list" where
  "triangulate_polygon vertices =
     (let n = length (strip_closing vertices) in
      if n < 3 then [] else map (\<lambda>i. [0, i, i + 1]) [1 ..< n - 1])"

definition calculate_normal :: "point \<Rightarrow> point \<Rightarrow> point \<Rightarrow> point" where
  "calculate_normal v0 v1 v2 =
     (let e1 = shift_point v0 v1;
          e2 = shift_point v0 v2;
          nx = py e1 * pz e2 - pz e1 * py e2;
          ny = pz e1 * px e2 - px e1 * pz e2;
          nz = px e1 * py e2 - py e1 * px e2;
          len = sqrt (nx * nx + ny * ny + nz * nz)
      in if len > 0 then (nx / len, ny / len, nz / len) else (nx, ny, nz))"

definition get_material_for_type :: "string \<Rightarrow> string" where
  "get_material_for_type et =
     (case map_of [(''RoofSurface'', ''roof''), (''WallSurface'', ''wall''),
                   (''GroundSurface'', ''ground''), (''ClosureSurface'', ''closure''),
                   (''Building'', ''building'')] et of
        Some m \<Rightarrow> m | None \<Rightarrow> ''default'')"

section \<open>gml2glb.py: triangulation of the building-grouping converter\<close>

definition glb_triangulate_polygon :: "'a list \<Rightarrow> 'a list list" where
  "glb_triangulate_polygon points =
     (if length points < 3 then []
      else map (\<lambda>i. [points ! 0, points ! i, points ! (i + 1)]) [1 ..< length points - 1])"

section \<open>gml2glb.py: the binary container\<close>

text \<open>Exceptions of the Python code that the model keeps as values.\<close>

datatype py_error = ValueError | IndexError | StructError

definition err_bind :: "py_error + 'a \<Rightarrow> ('a \<Rightarrow> py_error + 'b) \<Rightarrow> py_error + 'b" where
  "err_bind m f = (case m of Inl e \<Rightarrow> Inl e | Inr x \<Rightarrow> f x)"

type_synonym byte = "8 word"

text \<open>
  \<^verbatim>\<open>struct.pack('<I', n)\<close>: four bytes, least significant first; \<^verbatim>\<open>struct.error\<close> when
  \<open>n\<close> does not fit 32 bits. \<open>unpack_u32\<close> reads such a field back.
\<close>

definition pack_u32 :: "nat \<Rightarrow> py_error + byte list" where
  "pack_u32 n =
     (if n < 2 ^ 32
      then Inr [of_nat n, of_nat (n div 2 ^ 8), of_nat (n div 2 ^ 16), of_nat (n div 2 ^ 24)]
      else Inl StructError)"

definition unpack_u32 :: "byte list \<Rightarrow> nat" where
  "unpack_u32 bs = unat (bs ! 0) + 2 ^ 8 * unat (bs ! 1) + 2 ^ 16 * unat (bs ! 2) + 2 ^ 24 * unat (bs ! 3)"

text \<open>
  \<^verbatim>\<open>write_glb(output_path, gltf_json, binary_buffer)\<close>. The argument \<open>json_dump\<close> is the
  UTF-8 encoding of \<^verbatim>\<open>json.dumps(gltf_json, separators=(',', ':'))\<close>; the result is the
  byte sequence written to the file, in the order of the \<^verbatim>\<open>f.write\<close> calls.
\<close>

definition write_glb :: "byte list \<Rightarrow> byte list \<Rightarrow> py_error + byte list" where
  "write_glb json_dump binary_buffer0 =
     (let json_padding = (4 - length json_dump mod 4) mod 4;
          json_bytes = json_dump @ replicate json_padding 0x20;
          bin_padding = (4 - length binary_buffer0 mod 4) mod 4;
          binary_buffer = binary_buffer0 @ replicate bin_padding 0x00;
          magic = 0x46546C67;
          version = 2;
          total_length = 12 + 8 + length json_bytes + 8 + length binary_buffer
      in err_bind (pack_u32 magic) (\<lambda>h1.
         err_bind (pack_u32 version) (\<lambda>h2.
         err_bind (pack_u32 total_length) (\<lambda>h3.
         err_bind (pack_u32 (length json_bytes)) (\<lambda>jl.
         err_bind (pack_u32 0x4E4F534A) (\<lambda>jt.
         err_bind (pack_u32 (length binary_buffer)) (\<lambda>bl.
         err_bind (pack_u32 0x004E4942) (\<lambda>bt.
           Inr (h1 @ h2 @ h3 @ jl @ jt @ json_bytes @ bl @ bt @ binary_buffer)))))))))"

section \<open>XML documents and strings\<close>

text \<open>
  The parsed document is the input of the converters; reading the file into a tree is the
  XML library's work. An element has its tag in the \<open>{namespace}local\<close> form that both
  \<^verbatim>\<open>lxml\<close> and \<^verbatim>\<open>ElementTree\<close> use, its attributes, its text (\<^verbatim>\<open>None\<close> when there is none)
  and its child elements in document order.
\<close>

datatype xml = Element (tag_of: string) (attrib_of: "(string \<times> string) list")
                       (text_of: "string option") (children_of: "xml list")

fun descendants :: "xml \<Rightarrow> xml list" where
  "descendants (Element t a x cs) = concat (map (\<lambda>c. c # descendants c) cs)"

definition gml_ns :: string where "gml_ns = ''http://www.opengis.net/gml''"
definition bldg_ns :: string where "bldg_ns = ''http://www.opengis.net/citygml/building/2.0''"

definition qname :: "string \<Rightarrow> string \<Rightarrow> string" where
  "qname ns local = ''{'' @ ns @ ''}'' @ local"

text \<open>
  \<open>findall_desc\<close> is \<^verbatim>\<open>elem.findall('.//p:T')\<close> and \<^verbatim>\<open>elem.xpath('.//p:T')\<close>: the proper
  descendants with that tag, in document order. \<open>xpath_all\<close> is \<^verbatim>\<open>root.xpath('//p:T')\<close>,
  which also sees the root element. \<open>find_desc\<close> is \<^verbatim>\<open>elem.find('.//p:T')\<close>,
  \<open>find_child\<close> is \<^verbatim>\<open>elem.find('p:T')\<close>, \<open>findall_child\<close> is \<^verbatim>\<open>elem.findall('p:T')\<close>, and
  \<open>get_attr\<close> is \<^verbatim>\<open>elem.get(key)\<close>.
\<close>

definition findall_desc :: "string \<Rightarrow> xml \<Rightarrow> xml list" where
  "findall_desc t e = filter (\<lambda>d. tag_of d = t) (descendants e)"

definition xpath_all :: "string \<Rightarrow> xml \<Rightarrow> xml list" where
  "xpath_all t root_elem = filter (\<lambda>d. tag_of d = t) (root_elem # descendants root_elem)"

definition find_desc :: "string \<Rightarrow> xml \<Rightarrow> xml option" where
  "find_desc t e = (case findall_desc t e of [] \<Rightarrow> None | d # _ \<Rightarrow> Some d)"

definition findall_child :: "string \<Rightarrow> xml \<Rightarrow> xml list" where
  "findall_child t e = filter (\<lambda>d. tag_of d = t) (children_of e)"

definition find_child :: "string \<Rightarrow> xml \<Rightarrow> xml option" where
  "find_child t e = (case findall_child t e of [] \<Rightarrow> None | d # _ \<Rightarrow> Some d)"

definition get_attr :: "string \<Rightarrow> xml \<Rightarrow> string option" where
  "get_attr k e = map_of (attrib_of e) k"

text \<open>\<^verbatim>\<open>if elem.text:\<close> holds for a text that is neither \<^verbatim>\<open>None\<close> nor empty.\<close>

definition truthy_text :: "xml \<Rightarrow> string option" where
  "truthy_text e = (case text_of e of None \<Rightarrow> None | Some t \<Rightarrow> if t = [] then None else Some t)"

text \<open>\<^verbatim>\<open>tag.split('}')[-1]\<close>: what follows the last closing brace.\<close>

definition local_name :: "string \<Rightarrow> string" where
  "local_name t = rev (takeWhile (\<lambda>c. c \<noteq> CHR ''}'') (rev t))"

text \<open>
  A text is a list of characters with codes below 256. \<^verbatim>\<open>str.split()\<close> and
  \<^verbatim>\<open>str.strip()\<close> without arguments cut at the characters for which \<^verbatim>\<open>str.isspace\<close>
  holds; below 256 these are the codes 9 to 13, 28 to 32, 133 and 160.
\<close>

definition is_space :: "char \<Rightarrow> bool" where
  "is_space c = (c \<in> set [CHR 0x09, CHR 0x0A, CHR 0x0B, CHR 0x0C, CHR 0x0D,
                            CHR 0x1C, CHR 0x1D, CHR 0x1E, CHR 0x1F, CHR 0x20,
                            CHR 0x85, CHR 0xA0])"

fun split_from :: "string \<Rightarrow> string \<Rightarrow> string list" where
  "split_from cur [] = (if cur = [] then [] else [cur])"
| "split_from cur (c # cs) =
     (if is_space c then (if cur = [] then split_from [] cs else cur # split_from [] cs)
      else split_from (cur @ [c]) cs)"

definition py_split :: "string \<Rightarrow> string list" where
  "py_split s = split_from [] s"

definition py_strip :: "string \<Rightarrow> string" where
  "py_strip s = rev (dropWhile is_space (rev (dropWhile is_space s)))"

text \<open>
  The lines of a text: \<open>file_lines\<close> cuts a text at its line feeds. A string that ends in a
  line feed and is written at the start of a line adds the lines \<open>written_lines\<close> to the
  file; the empty piece after its last line feed is the start of the next line.
\<close>

definition LF :: char where
  "LF = CHR 0x0A"

fun lines_from :: "string \<Rightarrow> string \<Rightarrow> string list" where
  "lines_from cur [] = [cur]"
| "lines_from cur (c # cs) =
     (if c = CHR 0x0A then cur # lines_from [] cs else lines_from (cur @ [c]) cs)"

definition file_lines :: "string \<Rightarrow> string list" where
  "file_lines s = lines_from [] s"

definition written_lines :: "string \<Rightarrow> string list" where
  "written_lines s = butlast (file_lines s)"

text \<open>The number that a string of decimal digits denotes.\<close>

definition is_digit :: "char \<Rightarrow> bool" where
  "is_digit c = (48 \<le> (of_char c :: nat) \<and> (of_char c :: nat) \<le> 57)"

definition digits_value :: "string \<Rightarrow> nat" where
  "digits_value s = foldl (\<lambda>acc c. 10 * acc + (of_char c - 48)) 0 s"

section \<open>parser.py: CityGMLParser\<close>

text \<open>
  The builtin \<^verbatim>\<open>float\<close> is a parameter \<open>fl\<close> of the parsers: \<open>fl s = Some r\<close> when
  \<^verbatim>\<open>float(s)\<close> returns \<open>r\<close>, and \<open>None\<close> when it raises \<^verbatim>\<open>ValueError\<close>. Log messages are
  not part of the model.
\<close>

definition float3 :: "(string \<Rightarrow> real option) \<Rightarrow> string \<Rightarrow> string \<Rightarrow> string \<Rightarrow> point option" where
  "float3 fl a b c =
     (case fl a of None \<Rightarrow> None | Some x \<Rightarrow>
      (case fl b of None \<Rightarrow> None | Some y \<Rightarrow>
       (case fl c of None \<Rightarrow> None | Some z \<Rightarrow> Some (x, y, z))))"

text \<open>One \<^verbatim>\<open>gml:pos\<close> element: the body of the first loop of \<^verbatim>\<open>_extract_polygon_coordinates\<close>.\<close>

definition pos_coordinates :: "(string \<Rightarrow> real option) \<Rightarrow> xml \<Rightarrow> point list" where
  "pos_coordinates fl pos =
     (case truthy_text pos of
        None \<Rightarrow> []
      | Some t \<Rightarrow>
          let coords = py_split (py_strip t) in
          if length coords \<ge> 3
          then (case float3 fl (coords ! 0) (coords ! 1) (coords ! 2) of
                  Some p \<Rightarrow> [p] | None \<Rightarrow> [])
          else [])"

text \<open>
  The loop over \<^verbatim>\<open>range(0, len(coords), 3)\<close>: a group of three tokens gives a vertex when
  all three convert, and is passed over otherwise; fewer than three tokens left at the end
  fail the test \<^verbatim>\<open>i + 2 < len(coords)\<close>.
\<close>

fun poslist_coordinates :: "(string \<Rightarrow> real option) \<Rightarrow> string list \<Rightarrow> point list" where
  "poslist_coordinates fl (a # b # c # rest) =
     (case float3 fl a b c of Some p \<Rightarrow> [p] | None \<Rightarrow> []) @ poslist_coordinates fl rest"
| "poslist_coordinates fl _ = []"

definition extract_polygon_coordinates :: "(string \<Rightarrow> real option) \<Rightarrow> xml \<Rightarrow> point list" where
  "extract_polygon_coordinates fl polygon_element =
     (case find_desc (qname gml_ns ''LinearRing'') polygon_element of
        None \<Rightarrow> []
      | Some linear_ring \<Rightarrow>
          concat (map (pos_coordinates fl) (findall_child (qname gml_ns ''pos'') linear_ring)) @
          (case find_child (qname gml_ns ''posList'') linear_ring of
             None \<Rightarrow> []
           | Some pos_list \<Rightarrow>
               (case truthy_text pos_list of
                  None \<Rightarrow> []
                | Some t \<Rightarrow> poslist_coordinates fl (py_split (py_strip t)))))"

definition extract_geometry :: "(string \<Rightarrow> real option) \<Rightarrow> xml \<Rightarrow> geo_data" where
  "extract_geometry fl element =
     \<lparr> element_type = local_name (tag_of element),
       polygons = filter (\<lambda>coords. coords \<noteq> [])
                    (map (extract_polygon_coordinates fl)
                         (findall_desc (qname gml_ns ''Polygon'') element)),
       metadata =
         (case find_child (qname gml_ns ''name'') element of
            None \<Rightarrow> [] | Some name_elem \<Rightarrow> [(''name'', text_of name_elem)]) @
         (case find_child (qname gml_ns ''description'') element of
            None \<Rightarrow> [] | Some desc_elem \<Rightarrow> [(''description'', text_of desc_elem)]) \<rparr>"

text \<open>\<^verbatim>\<open>if gml_id:\<close> holds for an attribute that is present and not empty.\<close>

definition gml_id_of :: "xml \<Rightarrow> string option" where
  "gml_id_of e = (case get_attr (qname gml_ns ''id'') e of
                    None \<Rightarrow> None | Some i \<Rightarrow> if i = [] then None else Some i)"

definition add_building :: "(string \<Rightarrow> real option) \<Rightarrow> geometries \<Rightarrow> xml \<Rightarrow> geometries" where
  "add_building fl geometries building =
     (case gml_id_of building of
        None \<Rightarrow> geometries
      | Some gml_id \<Rightarrow>
          let geo = extract_geometry fl building in
          if polygons geo \<noteq> [] then dict_set geometries gml_id geo else geometries)"

definition add_surface :: "(string \<Rightarrow> real option) \<Rightarrow> string \<Rightarrow> geometries \<Rightarrow> xml \<Rightarrow> geometries" where
  "add_surface fl surface_type geometries surface =
     (case gml_id_of surface of
        None \<Rightarrow> geometries
      | Some gml_id \<Rightarrow>
          let geo = (extract_geometry fl surface) \<lparr> element_type := surface_type \<rparr> in
          if polygons geo \<noteq> [] then dict_set geometries gml_id geo else geometries)"

definition parse :: "(string \<Rightarrow> real option) \<Rightarrow> xml \<Rightarrow> geometries" where
  "parse fl root_elem =
     (let geometries = foldl (add_building fl) [] (xpath_all (qname bldg_ns ''Building'') root_elem)
      in foldl (\<lambda>geoms surface_type.
                  foldl (add_surface fl surface_type) geoms
                        (xpath_all (qname bldg_ns surface_type) root_elem))
               geometries
               [''RoofSurface'', ''WallSurface'', ''GroundSurface'', ''ClosureSurface''])"

section \<open>obj_writer.py: OBJWriter\<close>

text \<open>
  Every \<^verbatim>\<open>f.write\<close> of the writer passes a string that ends in a line feed, so every
  write starts at the beginning of a line and adds whole lines to the file. The file is
  modelled as the list of its lines. A line into which the writer puts only numbers is a
  record of the model: \<open>TotalObjects\<close>, \<open>CenterOffset\<close>, the vertex line \<open>V\<close>, the normal
  line \<open>VN\<close> and the face line \<open>F\<close> (\<^verbatim>\<open>f a//n b//n c//n\<close>, three vertex indices and one
  normal index); the formatting of the numbers is not modelled. A write into which the
  writer puts a string (the identifier, the element type, the material, the name of the
  material library) gives the lines \<open>Text\<close> that the written string really holds: the
  string is cut at its line feeds, those of the interpolated text included.
\<close>

datatype obj_line =
    Text string
  | TotalObjects nat
  | CenterOffset point
  | V point
  | VN point
  | F "nat \<times> nat \<times> nat" nat

record obj_writer =
  vertex_count :: nat
  normal_count :: nat

text \<open>
  The loop over the polygons of one group, from the running \<^verbatim>\<open>vertex_offset\<close>: it returns
  the lines written, \<^verbatim>\<open>group_vertices\<close> and \<^verbatim>\<open>group_faces\<close>.
\<close>

fun write_polygons ::
  "nat \<Rightarrow> nat \<Rightarrow> point list list \<Rightarrow> obj_line list \<times> point list \<times> (nat \<times> nat \<times> nat) list" where
  "write_polygons vc vertex_offset [] = ([], [], [])"
| "write_polygons vc vertex_offset (polygon # rest) =
     (if length polygon < 3 then write_polygons vc vertex_offset rest
      else
        let triangles = triangulate_polygon polygon;
            normals = map (\<lambda>tri. calculate_normal (polygon ! (tri ! 0)) (polygon ! (tri ! 1))
                                                     (polygon ! (tri ! 2))) triangles;
            faces = map (\<lambda>tri. (vc + vertex_offset + tri ! 0,
                                  vc + vertex_offset + tri ! 1,
                                  vc + vertex_offset + tri ! 2)) triangles;
            (ls, group_vertices, group_faces) =
               write_polygons vc (vertex_offset + length polygon) rest
        in (map V polygon @ map VN normals @ ls, polygon @ group_vertices, faces @ group_faces))"

definition write_group :: "obj_writer \<Rightarrow> string \<Rightarrow> geo_data \<Rightarrow> obj_line list \<times> obj_writer" where
  "write_group w gml_id geo =
     (let material = get_material_for_type (element_type geo);
          (ls, group_vertices, group_faces) = write_polygons (vertex_count w) 0 (polygons geo);
          face_lines = map (\<lambda>(i, face). F face (normal_count w + i))
                           (zip [0 ..< length group_faces] group_faces)
      in (map Text (written_lines ([LF] @ ''# '' @ gml_id @ '' ('' @ element_type geo @ '')'' @ [LF]))
          @ map Text (written_lines (''g '' @ gml_id @ [LF]))
          @ map Text (written_lines (''usemtl '' @ material @ [LF, LF]))
          @ ls @ map Text (written_lines [LF]) @ face_lines,
          \<lparr> vertex_count = vertex_count w + length group_vertices,
            normal_count = normal_count w + length group_faces \<rparr>))"

fun write_groups :: "obj_writer \<Rightarrow> geometries \<Rightarrow> obj_line list" where
  "write_groups w [] = []"
| "write_groups w ((gml_id, geo) # rest) =
     (let (ls, w') = write_group w gml_id geo in ls @ write_groups w' rest)"

text \<open>The metadata index, as the value handed to \<^verbatim>\<open>json.dump\<close>.\<close>

record 'm object_entry =
  entry_element_type :: string
  polygon_count :: nat
  entry_metadata :: 'm

record 'm metadata_index =
  offset :: point
  total_objects :: nat
  objects :: "(string \<times> 'm object_entry) list"

definition write_metadata :: "geometries \<Rightarrow> point \<Rightarrow> (string \<times> string option) list metadata_index" where
  "write_metadata geometries off =
     \<lparr> offset = off,
       total_objects = length geometries,
       objects = foldl (\<lambda>objs (gml_id, geo).
                   dict_set objs gml_id
                     \<lparr> entry_element_type = element_type geo,
                       polygon_count = length (polygons geo),
                       entry_metadata = metadata geo \<rparr>) [] geometries \<rparr>"

text \<open>
  \<^verbatim>\<open>write_single_obj\<close>: the header, then the groups with the counters started at 1, then
  the metadata file. The name of the material library is derived from the output path by
  the caller's file-name arithmetic and is a parameter here; the material file itself has
  a fixed content.
\<close>

definition write_single_obj ::
  "string \<Rightarrow> geometries \<Rightarrow> point \<Rightarrow> obj_line list \<times> (string \<times> string option) list metadata_index" where
  "write_single_obj mtl_filename geometries off =
     (map Text (written_lines (''# CityGML to OBJ Conversion'' @ [LF]))
       @ [TotalObjects (length geometries), CenterOffset off]
       @ map Text (written_lines (''mtllib '' @ mtl_filename @ [LF, LF]))
       @ write_groups \<lparr> vertex_count = 1, normal_count = 1 \<rparr> geometries,
      write_metadata geometries off)"


section \<open>Reading the text mesh file\<close>

text \<open>
  What a reader of the file takes a line for is decided by its first word: \<^verbatim>\<open>v\<close> starts a
  vertex record, \<^verbatim>\<open>vn\<close> a normal record, \<^verbatim>\<open>f\<close> a face record and \<^verbatim>\<open>g\<close> a group record.
  A corner \<^verbatim>\<open>a//n\<close> of a face line refers to vertex \<open>a\<close> and to normal \<open>n\<close>. The lines
  \<open>V\<close>, \<open>VN\<close> and \<open>F\<close> of the model are such records; a line \<open>Text\<close> is one when it reads
  so.
\<close>

definition line_keyword :: "string \<Rightarrow> string" where
  "line_keyword s = (case py_split s of [] \<Rightarrow> [] | w # _ \<Rightarrow> w)"

definition vertex_ref :: "string \<Rightarrow> nat" where
  "vertex_ref corner = digits_value (takeWhile (\<lambda>c. c \<noteq> CHR ''/'') corner)"

definition normal_ref :: "string \<Rightarrow> nat" where
  "normal_ref corner = digits_value (rev (takeWhile (\<lambda>c. c \<noteq> CHR ''/'') (rev corner)))"

fun is_vertex :: "obj_line \<Rightarrow> bool" where
  "is_vertex (V p) = True"
| "is_vertex (Text s) = (line_keyword s = ''v'')"
| "is_vertex _ = False"

fun is_normal :: "obj_line \<Rightarrow> bool" where
  "is_normal (VN p) = True"
| "is_normal (Text s) = (line_keyword s = ''vn'')"
| "is_normal _ = False"

fun is_group :: "obj_line \<Rightarrow> bool" where
  "is_group (Text s) = (line_keyword s = ''g'')"
| "is_group _ = False"

text \<open>The vertex references and the normal references of a face record.\<close>

fun face_refs :: "obj_line \<Rightarrow> (nat list \<times> nat list) option" where
  "face_refs (F (a, b, c) k) = Some ([a, b, c], [k])"
| "face_refs (Text s) =
     (if line_keyword s = ''f''
      then Some (map vertex_ref (tl (py_split s)), map normal_ref (tl (py_split s)))
      else None)"
| "face_refs _ = None"

definition vertex_records :: "obj_line list \<Rightarrow> nat" where
  "vertex_records ls = length (filter is_vertex ls)"

definition normal_records :: "obj_line list \<Rightarrow> nat" where
  "normal_records ls = length (filter is_normal ls)"

text \<open>
  A piece of a file is read with four numbers: \<open>v\<close> and \<open>n\<close> count the vertex and normal
  records read so far, \<open>gv\<close> and \<open>gn\<close> are what these counts were at the last group record.
  The piece is in order when every reference of every face record is above the count at
  the last group record and at most the count at the face record.
\<close>

definition refs_between :: "nat \<Rightarrow> nat \<Rightarrow> nat list \<Rightarrow> bool" where
  "refs_between lo hi rs = list_all (\<lambda>r. lo < r \<and> r \<le> hi) rs"

fun faces_ok :: "nat \<Rightarrow> nat \<Rightarrow> nat \<Rightarrow> nat \<Rightarrow> obj_line list \<Rightarrow> bool" where
  "faces_ok gv gn v n [] = True"
| "faces_ok gv gn v n (l # ls) =
     ((case face_refs l of
         None \<Rightarrow> True
       | Some (vr, nr) \<Rightarrow> refs_between gv v vr \<and> refs_between gn n nr) \<and>
      faces_ok (if is_group l then v else gv) (if is_group l then n else gn)
               (if is_vertex l then Suc v else v) (if is_normal l then Suc n else n) ls)"

text \<open>The count that a reader holds for the last group record, after a piece of a file.\<close>

fun group_mark :: "(obj_line \<Rightarrow> bool) \<Rightarrow> nat \<Rightarrow> nat \<Rightarrow> obj_line list \<Rightarrow> nat" where
  "group_mark cnt g c [] = g"
| "group_mark cnt g c (l # ls) =
     group_mark cnt (if is_group l then c else g) (if cnt l then Suc c else c) ls"

section \<open>gml2glb.py: buildings with their surfaces\<close>

record surface =
  surface_type :: string
  points :: "point list"

record building_info =
  building_id :: string
  description :: "string option"
  measuredHeight :: "real option"
  storeysAboveGround :: "int option"
  storeysBelowGround :: "int option"
  surfaces :: "surface list"

type_synonym buildings_data = "(string \<times> building_info) list"

text \<open>
  Loops of the source in which an exception may be raised: the first exception ends the
  loop and is the result.
\<close>

fun err_foldl :: "('s \<Rightarrow> 'a \<Rightarrow> py_error + 's) \<Rightarrow> 's \<Rightarrow> 'a list \<Rightarrow> py_error + 's" where
  "err_foldl f s [] = Inr s"
| "err_foldl f s (x # xs) = err_bind (f s x) (\<lambda>s'. err_foldl f s' xs)"

text \<open>\<^verbatim>\<open>list(map(float, tokens))\<close>: \<^verbatim>\<open>ValueError\<close> at the first token that is no number.\<close>

fun map_float :: "(string \<Rightarrow> real option) \<Rightarrow> string list \<Rightarrow> py_error + real list" where
  "map_float fl [] = Inr []"
| "map_float fl (t # ts) =
     (case fl t of
        None \<Rightarrow> Inl ValueError
      | Some x \<Rightarrow> err_bind (map_float fl ts) (\<lambda>xs. Inr (x # xs)))"

text \<open>
  \<^verbatim>\<open>[(coords[i], coords[i+1], coords[i+2]) for i in range(0, len(coords), 3)]\<close>:
  \<^verbatim>\<open>IndexError\<close> when one or two numbers are left over.
\<close>

fun coords_triples :: "real list \<Rightarrow> py_error + point list" where
  "coords_triples [] = Inr []"
| "coords_triples (a # b # c # rest) = err_bind (coords_triples rest) (\<lambda>ps. Inr ((a, b, c) # ps))"
| "coords_triples _ = Inl IndexError"

fun glb_pos_points :: "(string \<Rightarrow> real option) \<Rightarrow> xml list \<Rightarrow> py_error + point list" where
  "glb_pos_points fl [] = Inr []"
| "glb_pos_points fl (pos # rest) =
     (case truthy_text pos of
        None \<Rightarrow> glb_pos_points fl rest
      | Some t \<Rightarrow>
          err_bind (map_float fl (py_split t)) (\<lambda>coords.
          err_bind (glb_pos_points fl rest) (\<lambda>ps.
            Inr ((if length coords \<ge> 3 then [(coords ! 0, coords ! 1, coords ! 2)] else []) @ ps))))"

text \<open>The points of one ring: the packed list when it is present with a text, the position nodes otherwise.\<close>

definition glb_ring_points :: "(string \<Rightarrow> real option) \<Rightarrow> xml \<Rightarrow> py_error + point list" where
  "glb_ring_points fl linear_ring =
     (case (case find_child (qname gml_ns ''posList'') linear_ring of
              None \<Rightarrow> None | Some poslist \<Rightarrow> truthy_text poslist) of
        Some t \<Rightarrow> err_bind (map_float fl (py_split t)) coords_triples
      | None \<Rightarrow> glb_pos_points fl (findall_child (qname gml_ns ''pos'') linear_ring))"

definition glb_add_polygon ::
  "(string \<Rightarrow> real option) \<Rightarrow> string \<Rightarrow> surface list \<Rightarrow> xml \<Rightarrow> py_error + surface list" where
  "glb_add_polygon fl stype acc polygon =
     (case find_desc (qname gml_ns ''exterior'') polygon of
        None \<Rightarrow> Inr acc
      | Some exterior \<Rightarrow>
          (case find_desc (qname gml_ns ''LinearRing'') exterior of
             None \<Rightarrow> Inr acc
           | Some linear_ring \<Rightarrow>
               err_bind (glb_ring_points fl linear_ring) (\<lambda>pts.
                 if length pts < 3 then Inr acc
                 else Inr (acc @ [\<lparr> surface_type = stype, points = pts \<rparr>]))))"

definition glb_surface_types :: "string list" where
  "glb_surface_types = [''RoofSurface'', ''WallSurface'', ''GroundSurface'', ''ClosureSurface'',
                        ''FloorSurface'', ''CeilingSurface'']"

definition glb_add_surfaces ::
  "(string \<Rightarrow> real option) \<Rightarrow> xml \<Rightarrow> surface list \<Rightarrow> py_error + surface list" where
  "glb_add_surfaces fl building acc0 =
     err_foldl (\<lambda>acc stype.
        err_foldl (\<lambda>acc surface_elem.
           err_foldl (glb_add_polygon fl stype) acc
                     (findall_desc (qname gml_ns ''Polygon'') surface_elem))
          acc (findall_desc (qname bldg_ns stype) building))
       acc0 glb_surface_types"

text \<open>
  The attributes of a building are set once: \<^verbatim>\<open>not building_info[...]\<close> holds for
  \<^verbatim>\<open>None\<close>, for the empty string and for zero. The builtin \<^verbatim>\<open>int\<close> is a parameter \<open>it\<close>,
  as \<open>fl\<close> is for \<^verbatim>\<open>float\<close>; a \<^verbatim>\<open>ValueError\<close> of either leaves the attribute as it was.
\<close>

definition found_text :: "string \<Rightarrow> xml \<Rightarrow> string option" where
  "found_text t e = (case find_desc t e of None \<Rightarrow> None | Some d \<Rightarrow> truthy_text d)"

definition set_description :: "xml \<Rightarrow> building_info \<Rightarrow> building_info" where
  "set_description building info =
     (case found_text (qname gml_ns ''description'') building of
        Some t \<Rightarrow>
          if description info = None \<or> description info = Some []
          then info \<lparr> description := Some (py_strip t) \<rparr> else info
      | None \<Rightarrow> info)"

definition set_measured_height ::
  "(string \<Rightarrow> real option) \<Rightarrow> xml \<Rightarrow> building_info \<Rightarrow> building_info" where
  "set_measured_height fl building info =
     (case found_text (qname bldg_ns ''measuredHeight'') building of
        Some t \<Rightarrow>
          if measuredHeight info = None \<or> measuredHeight info = Some 0
          then (case fl t of Some h \<Rightarrow> info \<lparr> measuredHeight := Some h \<rparr> | None \<Rightarrow> info)
          else info
      | None \<Rightarrow> info)"

definition set_storeys_above ::
  "(string \<Rightarrow> int option) \<Rightarrow> xml \<Rightarrow> building_info \<Rightarrow> building_info" where
  "set_storeys_above it building info =
     (case found_text (qname bldg_ns ''storeysAboveGround'') building of
        Some t \<Rightarrow>
          if storeysAboveGround info = None \<or> storeysAboveGround info = Some 0
          then (case it t of Some n \<Rightarrow> info \<lparr> storeysAboveGround := Some n \<rparr> | None \<Rightarrow> info)
          else info
      | None \<Rightarrow> info)"

definition set_storeys_below ::
  "(string \<Rightarrow> int option) \<Rightarrow> xml \<Rightarrow> building_info \<Rightarrow> building_info" where
  "set_storeys_below it building info =
     (case found_text (qname bldg_ns ''storeysBelowGround'') building of
        Some t \<Rightarrow>
          if storeysBelowGround info = None \<or> storeysBelowGround info = Some 0
          then (case it t of Some n \<Rightarrow> info \<lparr> storeysBelowGround := Some n \<rparr> | None \<Rightarrow> info)
          else info
      | None \<Rightarrow> info)"

definition glb_update_attributes ::
  "(string \<Rightarrow> real option) \<Rightarrow> (string \<Rightarrow> int option) \<Rightarrow> xml \<Rightarrow> building_info \<Rightarrow> building_info" where
  "glb_update_attributes fl it building info =
     set_storeys_below it building
       (set_storeys_above it building
         (set_measured_height fl building
           (set_description building info)))"

definition new_building_info :: "string \<Rightarrow> building_info" where
  "new_building_info bid =
     \<lparr> building_id = bid, description = None, measuredHeight = None,
       storeysAboveGround = None, storeysBelowGround = None, surfaces = [] \<rparr>"

definition glb_add_building ::
  "(string \<Rightarrow> real option) \<Rightarrow> (string \<Rightarrow> int option) \<Rightarrow> buildings_data \<Rightarrow> xml
     \<Rightarrow> py_error + buildings_data" where
  "glb_add_building fl it data building =
     (case gml_id_of building of
        None \<Rightarrow> Inr data
      | Some bid \<Rightarrow>
          let info0 = (case dict_get data bid of Some i \<Rightarrow> i | None \<Rightarrow> new_building_info bid);
              info1 = glb_update_attributes fl it building info0
          in err_bind (glb_add_surfaces fl building (surfaces info1)) (\<lambda>ss.
               Inr (dict_set data bid (info1 \<lparr> surfaces := ss \<rparr>))))"

definition glb_parse_citygml ::
  "(string \<Rightarrow> real option) \<Rightarrow> (string \<Rightarrow> int option) \<Rightarrow> xml \<Rightarrow> py_error + buildings_data" where
  "glb_parse_citygml fl it root_elem =
     err_foldl (glb_add_building fl it) [] (findall_desc (qname bldg_ns ''Building'') root_elem)"


section \<open>gml2glb.py: the scene description\<close>














record building_meta =
  meta_name :: string
  meta_description :: "string option"
  meta_measuredHeight :: "real option"
  meta_storeysAboveGround :: "int option"
  meta_storeysBelowGround :: "int option"
  surfaceTypes :: "(string \<times> nat) list"

definition count_surface_types :: "surface list \<Rightarrow> (string \<times> nat) list" where
  "count_surface_types ss =
     foldl (\<lambda>d s. dict_set d (surface_type s)
                     ((case dict_get d (surface_type s) of None \<Rightarrow> 0 | Some n \<Rightarrow> n) + 1)) [] ss"

definition glb_write_metadata :: "buildings_data \<Rightarrow> point \<Rightarrow> building_meta metadata_index" where
  "glb_write_metadata data off =
     \<lparr> offset = off,
       total_objects = length data,
       objects = foldl (\<lambda>objs (bid, info).
                   dict_set objs bid
                     \<lparr> entry_element_type = ''Building'',
                       polygon_count = length (surfaces info),
                       entry_metadata =
                         \<lparr> meta_name = bid,
                           meta_description = description info,
                           meta_measuredHeight = measuredHeight info,
                           meta_storeysAboveGround = storeysAboveGround info,
                           meta_storeysBelowGround = storeysBelowGround info,
                           surfaceTypes = count_surface_types (surfaces info) \<rparr> \<rparr>) [] data \<rparr>"


section \<open>simple_gml2obj.py\<close>

record simple_surface =
  s_id :: string
  s_type :: string
  s_points :: "point list"
  start_vertex :: nat

definition simple_surface_tags :: "string list" where
  "simple_surface_tags = map (qname bldg_ns)
     [''RoofSurface'', ''WallSurface'', ''GroundSurface'', ''ClosureSurface'']"

text \<open>
  The state of the parsing loops is the list \<^verbatim>\<open>surfaces\<close> with the counter
  \<^verbatim>\<open>vertex_index\<close>. Every tag of the list holds one closing brace, so that
  \<^verbatim>\<open>surface_type.split('}')[1]\<close> is its local name.
\<close>

definition simple_add_polygon ::
  "(string \<Rightarrow> real option) \<Rightarrow> string \<Rightarrow> string \<Rightarrow> simple_surface list \<times> nat \<Rightarrow> xml
     \<Rightarrow> py_error + simple_surface list \<times> nat" where
  "simple_add_polygon fl gml_id stag st polygon =
     (case find_desc (qname gml_ns ''exterior'') polygon of
        None \<Rightarrow> Inr st
      | Some exterior \<Rightarrow>
          (case found_text (qname gml_ns ''posList'') exterior of
             None \<Rightarrow> Inr st
           | Some t \<Rightarrow>
               err_bind (map_float fl (py_split t)) (\<lambda>coords.
               err_bind (coords_triples coords) (\<lambda>pts.
                 if length pts < 3 then Inr st
                 else Inr (fst st @ [\<lparr> s_id = gml_id, s_type = local_name stag,
                                        s_points = pts, start_vertex = snd st \<rparr>],
                           snd st + length pts)))))"

definition simple_add_surface ::
  "(string \<Rightarrow> real option) \<Rightarrow> string \<Rightarrow> simple_surface list \<times> nat \<Rightarrow> xml
     \<Rightarrow> py_error + simple_surface list \<times> nat" where
  "simple_add_surface fl stag st surface_elem =
     (case gml_id_of surface_elem of
        None \<Rightarrow> Inr st
      | Some gml_id \<Rightarrow>
          err_foldl (simple_add_polygon fl gml_id stag) st
                    (findall_desc (qname gml_ns ''Polygon'') surface_elem))"

definition simple_parse_citygml ::
  "(string \<Rightarrow> real option) \<Rightarrow> xml \<Rightarrow> py_error + simple_surface list" where
  "simple_parse_citygml fl root_elem =
     err_bind
       (err_foldl (\<lambda>st stag. err_foldl (simple_add_surface fl stag) st (findall_desc stag root_elem))
                  ([], 1) simple_surface_tags)
       (\<lambda>st. Inr (fst st))"

definition simple_calculate_offset :: "simple_surface list \<Rightarrow> point" where
  "simple_calculate_offset surfs =
     (if surfs = [] then (0, 0, 0)
      else let all_points = concat (map s_points surfs)
           in (col_min (map px all_points), col_min (map py all_points), col_min (map pz all_points)))"

text \<open>
  \<^verbatim>\<open>write_obj\<close> is modelled at the level of characters: the result is the list of the
  strings passed to \<^verbatim>\<open>f.write\<close>, and the file is their concatenation. Every string literal
  of this function ends in \<^verbatim>\<open>\\n\<close>, an escaped backslash followed by the letter n, which
  are the two characters \<open>backslash_n\<close> and not a line feed. \<^verbatim>\<open>str\<close> of an integer is
  \<open>show_nat\<close>; \<^verbatim>\<open>str\<close> of a float and of the offset tuple are the parameters \<open>str_float\<close> and
  \<open>str_point\<close>.
\<close>

definition backslash_n :: string where
  "backslash_n = [CHR 0x5C, CHR ''n'']"

fun show_nat :: "nat \<Rightarrow> string" where
  "show_nat n = (if n < 10 then [char_of (48 + n)]
                 else show_nat (n div 10) @ [char_of (48 + n mod 10)])"

definition face_text :: "nat \<Rightarrow> nat \<Rightarrow> nat \<Rightarrow> string" where
  "face_text a b c = ''f '' @ show_nat a @ '' '' @ show_nat b @ '' '' @ show_nat c @ backslash_n"

definition simple_write_surface ::
  "(real \<Rightarrow> string) \<Rightarrow> point \<Rightarrow> nat \<Rightarrow> simple_surface \<Rightarrow> string list" where
  "simple_write_surface str_float off vcount s =
     (let num_verts = length (s_points s) in
      [backslash_n @ ''g '' @ s_id s @ backslash_n, ''usemtl building'' @ backslash_n @ backslash_n]
      @ map (\<lambda>(x, y, z). ''v '' @ str_float (x - px off) @ '' '' @ str_float (y - py off)
                              @ '' '' @ str_float (z - pz off) @ backslash_n) (s_points s)
      @ (if num_verts = 3 then [face_text vcount (vcount + 1) (vcount + 2)]
         else if num_verts = 4
         then [face_text vcount (vcount + 1) (vcount + 2),
               face_text vcount (vcount + 2) (vcount + 3)]
         else map (\<lambda>i. face_text vcount (vcount + i) (vcount + i + 1))
                  [1 ..< num_verts - 1])
      @ [backslash_n])"

fun simple_write_surfaces ::
  "(real \<Rightarrow> string) \<Rightarrow> point \<Rightarrow> nat \<Rightarrow> simple_surface list \<Rightarrow> string list" where
  "simple_write_surfaces str_float off vcount [] = []"
| "simple_write_surfaces str_float off vcount (s # rest) =
     simple_write_surface str_float off vcount s
     @ simple_write_surfaces str_float off (vcount + length (s_points s)) rest"

definition simple_write_obj ::
  "(real \<Rightarrow> string) \<Rightarrow> (point \<Rightarrow> string) \<Rightarrow> simple_surface list \<Rightarrow> string \<Rightarrow> point \<Rightarrow> string list" where
  "simple_write_obj str_float str_point surfs mtl_file off =
     [''# CityGML to OBJ Conversion'' @ backslash_n,
      ''# Total objects: '' @ show_nat (length surfs) @ backslash_n,
      ''# Center offset: '' @ str_point off @ backslash_n,
      ''mtllib '' @ mtl_file @ backslash_n @ backslash_n]
     @ simple_write_surfaces str_float off 1 surfs"

text \<open>
  The records of a text file are its lines, and a text names the group \<open>g\<close> when one of
  its lines is the group record of \<open>g\<close>.
\<close>

definition names_group :: "string \<Rightarrow> string \<Rightarrow> bool" where
  "names_group file_text g = (''g '' @ g \<in> set (file_lines file_text))"

definition simple_write_metadata :: "simple_surface list \<Rightarrow> point \<Rightarrow> string metadata_index" where
  "simple_write_metadata surfs off =
     \<lparr> offset = off,
       total_objects = length surfs,
       objects = foldl (\<lambda>objs s.
                   dict_set objs (s_id s)
                     \<lparr> entry_element_type = ''Surface'', polygon_count = 1,
                       entry_metadata = s_id s \<rparr>) [] surfs \<rparr>"

definition simple_main ::
  "(string \<Rightarrow> real option) \<Rightarrow> (real \<Rightarrow> string) \<Rightarrow> (point \<Rightarrow> string) \<Rightarrow> string \<Rightarrow> xml
     \<Rightarrow> py_error + (string list \<times> string metadata_index) option" where
  "simple_main fl str_float str_point mtl_file root_elem =
     err_bind (simple_parse_citygml fl root_elem) (\<lambda>surfs.
       if surfs = [] then Inr None
       else let off = simple_calculate_offset surfs
            in Inr (Some (simple_write_obj str_float str_point surfs mtl_file off,
                          simple_write_metadata surfs off)))"

section \<open>Invariants of the parsers\<close>

text \<open>
  What the parser of parser.py keeps: distinct identifiers, and for every identifier at least
  one loop, none of them empty. What the parser of gml2glb.py keeps: distinct identifiers,
  and only rings of at least three points.
\<close>

definition kept :: "geometries \<Rightarrow> bool" where
  "kept gs \<longleftrightarrow> distinct (map fst gs) \<and> (\<forall>(k, g) \<in> set gs. polygons g \<noteq> [] \<and> [] \<notin> set (polygons g))"








section \<open>Example inputs\<close>

text \<open>
  A geometry map of two records. Its bounding box is spanned by all three polygons: the
  least and the greatest values of the three axes come from different polygons.
\<close>

definition ex_geos :: geometries where
  "ex_geos =
     [(''B1'', \<lparr> element_type = ''Building'',
                polygons = [[(0, 0, 0), (4, 0, 0), (4, 2, 0)], [(1, 1, 8), (2, 1, 8), (2, 2, 8)]],
                metadata = [(''name'', Some ''Hall'')] \<rparr>),
      (''W1'', \<lparr> element_type = ''WallSurface'',
                polygons = [[(-2, 1, 6), (0, 6, 1), (1, 1, 1)]],
                metadata = [] \<rparr>)]"

text \<open>A geometry map whose only identifier holds a line feed followed by the text of a face line.\<close>

definition ex_inject_geos :: geometries where
  "ex_inject_geos =
     [(''X'' @ [LF] @ ''f 9//9 9//9 9//9'',
       \<lparr> element_type = ''Building'', polygons = [], metadata = [] \<rparr>)]"

text \<open>
  A converter for the tokens of the example documents. On a non-empty string of decimal
  digits \<^verbatim>\<open>float\<close> and \<^verbatim>\<open>int\<close> return the number it denotes, and both raise \<^verbatim>\<open>ValueError\<close>
  on the token \<^verbatim>\<open>x\<close>; the example documents hold no other token.
\<close>

definition digits_float :: "string \<Rightarrow> real option" where
  "digits_float s = (if s \<noteq> [] \<and> list_all is_digit s then Some (real (digits_value s)) else None)"

definition digits_int :: "string \<Rightarrow> int option" where
  "digits_int s = (if s \<noteq> [] \<and> list_all is_digit s then Some (int (digits_value s)) else None)"

text \<open>Building blocks of the example documents.\<close>

definition ring_of_poslist :: "string \<Rightarrow> xml" where
  "ring_of_poslist t =
     Element (qname gml_ns ''LinearRing'') [] None
       [Element (qname gml_ns ''posList'') [] (Some t) []]"

definition polygon_of_ring :: "xml \<Rightarrow> xml" where
  "polygon_of_ring ring =
     Element (qname gml_ns ''Polygon'') [] None
       [Element (qname gml_ns ''exterior'') [] None [ring]]"

definition mk_wall_surface :: "string \<Rightarrow> xml list \<Rightarrow> xml" where
  "mk_wall_surface i polys =
     Element (qname bldg_ns ''WallSurface'') [(qname gml_ns ''id'', i)] None polys"

definition mk_building :: "string \<Rightarrow> xml list \<Rightarrow> xml" where
  "mk_building i cs = Element (qname bldg_ns ''Building'') [(qname gml_ns ''id'', i)] None cs"

definition mk_city_model :: "xml list \<Rightarrow> xml" where
  "mk_city_model cs = Element ''{http://www.opengis.net/citygml/2.0}CityModel'' [] None cs"

text \<open>A ring that holds three position nodes and a packed list of the same three points.\<close>

definition ex_ring_both :: xml where
  "ex_ring_both =
     Element (qname gml_ns ''LinearRing'') [] None
       [Element (qname gml_ns ''pos'') [] (Some ''0 0 0'') [],
        Element (qname gml_ns ''pos'') [] (Some ''4 0 0'') [],
        Element (qname gml_ns ''pos'') [] (Some ''4 0 3'') [],
        Element (qname gml_ns ''posList'') [] (Some ''0 0 0 4 0 0 4 0 3'') []]"

text \<open>
  One building with one wall: in the first document the last token of the packed list is
  no number, in the second the list holds eight tokens.
\<close>

definition ex_doc_token :: xml where
  "ex_doc_token =
     mk_city_model [mk_building ''B1''
       [mk_wall_surface ''W1'' [polygon_of_ring (ring_of_poslist ''0 0 0 4 0 0 4 0 x'')]]]"

definition ex_doc_short :: xml where
  "ex_doc_short =
     mk_city_model [mk_building ''B1''
       [mk_wall_surface ''W1'' [polygon_of_ring (ring_of_poslist ''0 0 0 4 0 0 4 0'')]]]"

text \<open>
  Two buildings. The wall of \<open>B0\<close> has a ring of two points, and \<open>B0\<close> has a second wall
  whose ring is empty; the wall of \<open>B2\<close> is a triangle.
\<close>

definition ex_doc_degenerate :: xml where
  "ex_doc_degenerate =
     mk_city_model
       [mk_building ''B0''
          [mk_wall_surface ''W1'' [polygon_of_ring (ring_of_poslist ''0 0 0 4 0 0'')],
           mk_wall_surface ''W0'' [polygon_of_ring (Element (qname gml_ns ''LinearRing'') [] None [])]],
        mk_building ''B2''
          [mk_wall_surface ''W2'' [polygon_of_ring (ring_of_poslist ''0 0 0 4 0 0 4 2 6'')]]]"

text \<open>A roof surface with two polygons, as \<^verbatim>\<open>simple_gml2obj\<close> lists it, and two walls.\<close>

definition ex_roof_surfaces :: "simple_surface list" where
  "ex_roof_surfaces =
     [\<lparr> s_id = ''R1'', s_type = ''RoofSurface'',
        s_points = [(0, 0, 6), (4, 0, 6), (4, 2, 6)], start_vertex = 1 \<rparr>,
      \<lparr> s_id = ''R1'', s_type = ''RoofSurface'',
        s_points = [(4, 2, 6), (0, 2, 6), (0, 0, 6)], start_vertex = 4 \<rparr>]"

definition ex_wall_surfaces :: "simple_surface list" where
  "ex_wall_surfaces =
     [\<lparr> s_id = ''W1'', s_type = ''WallSurface'',
        s_points = [(0, 0, 0), (4, 0, 0), (4, 0, 6)], start_vertex = 1 \<rparr>,
      \<lparr> s_id = ''W2'', s_type = ''WallSurface'',
        s_points = [(4, 0, 0), (4, 2, 0), (4, 2, 6)], start_vertex = 4 \<rparr>]"

definition ex_buildings :: buildings_data where
  "ex_buildings =
     [(''B0'', \<lparr> building_id = ''B0'', description = None, measuredHeight = None,
                storeysAboveGround = None, storeysBelowGround = None, surfaces = [] \<rparr>),
      (''B2'', \<lparr> building_id = ''B2'', description = Some ''Hall'', measuredHeight = Some 6,
                storeysAboveGround = Some 2, storeysBelowGround = None,
                surfaces = [\<lparr> surface_type = ''WallSurface'',
                              points = [(0, 0, 0), (4, 0, 0), (4, 2, 6)] \<rparr>] \<rparr>)]"

text \<open>A building whose roof surface \<open>R1\<close> holds two polygons.\<close>

definition ex_doc_roof :: xml where
  "ex_doc_roof =
     mk_city_model [mk_building ''B1''
       [Element (qname bldg_ns ''RoofSurface'') [(qname gml_ns ''id'', ''R1'')] None
          [polygon_of_ring (ring_of_poslist ''0 0 6 4 0 6 4 2 6''),
           polygon_of_ring (ring_of_poslist ''4 2 6 0 2 6 0 0 6'')]]]"

text \<open>
  \<^verbatim>\<open>str\<close> on the floats of the example documents, which are whole and not negative:
  \<^verbatim>\<open>str(4.0)\<close> is \<^verbatim>\<open>4.0\<close>; and \<^verbatim>\<open>str\<close> on a tuple of three of them.
\<close>

definition ex_str_float :: "real \<Rightarrow> string" where
  "ex_str_float r = show_nat (nat \<lfloor>r\<rfloor>) @ ''.0''"

definition ex_str_point :: "point \<Rightarrow> string" where
  "ex_str_point p =
     ''('' @ ex_str_float (px p) @ '', '' @ ex_str_float (py p) @ '', '' @ ex_str_float (pz p) @ '')''"

text \<open>
  The strings that \<^verbatim>\<open>write_obj\<close> of simple_gml2obj.py passes to \<^verbatim>\<open>f.write\<close> for the document
  with the degenerate rings, of which only the wall \<open>W2\<close> has a ring of three points.
\<close>

definition ex_simple_writes :: "string list" where
  "ex_simple_writes =
     [''# CityGML to OBJ Conversion'' @ backslash_n,
      ''# Total objects: 1'' @ backslash_n,
      ''# Center offset: (0.0, 0.0, 0.0)'' @ backslash_n,
      ''mtllib city.mtl'' @ backslash_n @ backslash_n,
      backslash_n @ ''g W2'' @ backslash_n,
      ''usemtl building'' @ backslash_n @ backslash_n,
      ''v 0.0 0.0 0.0'' @ backslash_n,
      ''v 4.0 0.0 0.0'' @ backslash_n,
      ''v 4.0 2.0 6.0'' @ backslash_n,
      ''f 1 2 3'' @ backslash_n,
      backslash_n]"

section \<open>Facts about dictionaries and loops\<close>

lemma dict_set_fresh: "k \<notin> fst ` set d \<Longrightarrow> dict_set d k v = d @ [(k, v)]"
  by (induction d) auto

lemma dict_set_keys: "fst ` set (dict_set d k v) = insert k (fst ` set d)"
proof (induction d)
  case Nil then show ?case by simp
next
  case (Cons kv d)
  obtain k' v' where kv: "kv = (k', v')" by (cases kv)
  show ?case
  proof (cases "k' = k")
    case True then show ?thesis by (simp add: kv)
  next
    case False then show ?thesis using Cons by (simp add: kv insert_commute)
  qed
qed

lemma dict_set_distinct: "distinct (map fst d) \<Longrightarrow> distinct (map fst (dict_set d k v))"
proof (induction d)
  case Nil then show ?case by simp
next
  case (Cons kv d)
  obtain k' v' where kv: "kv = (k', v')" by (cases kv)
  show ?case
  proof (cases "k' = k")
    case True then show ?thesis using Cons.prems by (simp add: kv)
  next
    case False
    have "k' \<notin> fst ` set (dict_set d k v)"
      using Cons.prems False by (simp add: kv dict_set_keys)
    then show ?thesis using Cons False by (simp add: kv)
  qed
qed

lemma dict_set_subset: "set (dict_set d k v) \<subseteq> insert (k, v) (set d)"
proof (induction d)
  case Nil then show ?case by simp
next
  case (Cons kv d)
  obtain k' v' where kv: "kv = (k', v')" by (cases kv)
  show ?case
  proof (cases "k' = k")
    case True then show ?thesis by (auto simp: kv)
  next
    case False then show ?thesis using Cons by (auto simp: kv)
  qed
qed


lemma foldl_dict_set_distinct:
  assumes "distinct (map fst gs)" "fst ` set acc \<inter> fst ` set gs = {}"
  shows "foldl (\<lambda>acc (k, g). dict_set acc k (f k g)) acc gs = acc @ map (\<lambda>(k, g). (k, f k g)) gs"
  using assms
proof (induction gs arbitrary: acc)
  case Nil then show ?case by simp
next
  case (Cons kg gs)
  obtain k g where kg: "kg = (k, g)" by (cases kg)
  have fresh: "k \<notin> fst ` set acc" using Cons.prems(2) kg by auto
  have d: "distinct (map fst gs)" using Cons.prems(1) by simp
  have disj: "fst ` set (acc @ [(k, f k g)]) \<inter> fst ` set gs = {}"
    using Cons.prems kg by (auto simp: image_iff)
  show ?case using Cons.IH[OF d disj] by (simp add: kg dict_set_fresh[OF fresh])
qed

lemma foldl_invariant:
  assumes "P s" "\<And>s x. P s \<Longrightarrow> x \<in> set xs \<Longrightarrow> P (f s x)"
  shows "P (foldl f s xs)"
  using assms by (induction xs arbitrary: s) auto

lemma err_bind_Inr: "err_bind m f = Inr y \<longleftrightarrow> (\<exists>x. m = Inr x \<and> f x = Inr y)"
  by (cases m) (simp_all add: err_bind_def)


section \<open>Fan triangulation\<close>

lemma strip_closing_length_le: "length (strip_closing vs) \<le> length vs"
  by (simp add: strip_closing_def)

lemma triangulate_polygon_count:
  "length (triangulate_polygon vs) = length (strip_closing vs) - 2"
  by (auto simp: triangulate_polygon_def Let_def)

lemma triangulate_polygon_nth:
  assumes "k < length (strip_closing vs) - 2"
  shows "triangulate_polygon vs ! k = [0, k + 1, k + 2]"
  using assms by (auto simp: triangulate_polygon_def Let_def)

lemma triangulate_polygon_indices:
  assumes "t \<in> set (triangulate_polygon vs)" "i \<in> set t"
  shows "i < length (strip_closing vs)"
  using assms by (auto simp: triangulate_polygon_def Let_def split: if_splits)

lemma triangulate_polygon_cover:
  assumes "3 \<le> length (strip_closing vs)"
  shows "(\<Union>t \<in> set (triangulate_polygon vs). set t) = {0 ..< length (strip_closing vs)}"
proof -
  let ?n = "length (strip_closing vs)"
  have tri: "triangulate_polygon vs = map (\<lambda>i. [0, i, i + 1]) [1 ..< ?n - 1]"
    using assms by (simp add: triangulate_polygon_def Let_def)
  show ?thesis
  proof (rule set_eqI, rule iffI)
    fix i assume "i \<in> (\<Union>t \<in> set (triangulate_polygon vs). set t)"
    then show "i \<in> {0 ..< ?n}" using assms by (auto simp: tri split: if_splits)
  next
    fix i assume i: "i \<in> {0 ..< ?n}"
    consider "i = 0" | "1 \<le> i" "i < ?n - 1" | "i = ?n - 1" using i by force
    then show "i \<in> (\<Union>t \<in> set (triangulate_polygon vs). set t)"
    proof cases
      case 1
      have "[0, 1, 2] \<in> set (triangulate_polygon vs)" using assms by (auto simp: tri)
      then show ?thesis using 1 by force
    next
      case 2
      then have "[0, i, i + 1] \<in> set (triangulate_polygon vs)" by (auto simp: tri)
      then show ?thesis by force
    next
      case 3
      then have "[0, i - 1, i] \<in> set (triangulate_polygon vs)"
        using assms by (auto simp: tri image_iff intro!: bexI[of _ "i - 1"])
      then show ?thesis by force
    qed
  qed
qed

text \<open>
  Claim C1. Triangulation first drops a trailing vertex equal to the first one, gives no
  triangle when fewer than three vertices remain, and otherwise gives the \<open>n - 2\<close> fan
  triangles \<open>(0, i, i + 1)\<close> over the \<open>n\<close> remaining vertices. The lemmas above show this
  for \<open>triangulate_polygon\<close> of geometry.py. On the closed ring of a triangle that
  function returns the one triangle, but the triangulation of gml2glb.py keeps the closing
  vertex and returns a second triangle with two equal corners.
\<close>

theorem glb_triangulate_closed_ring:
  "triangulate_polygon [(0, 0, 0), (1, 0, 0), (1, 1, 0), (0, 0, 0 :: real)] = [[0, 1, 2]] \<and>
   glb_triangulate_polygon [(0, 0, 0), (1, 0, 0), (1, 1, 0), (0, 0, 0 :: real)]
     = [[(0, 0, 0), (1, 0, 0), (1, 1, 0)], [(0, 0, 0), (1, 1, 0), (0, 0, 0)]]"
  by (simp add: triangulate_polygon_def strip_closing_def glb_triangulate_polygon_def upt_rec)

section \<open>Centering (geometry.py)\<close>

lemma foldl_min_Min: "foldl min (a::real) xs = Min (insert a (set xs))"
proof (induction xs arbitrary: a)
  case Nil then show ?case by simp
next
  case (Cons x xs)
  have "Min (insert (min a x) (set xs)) = Min (insert a (insert x (set xs)))"
    by (cases "set xs = {}") (simp_all add: min.assoc)
  then show ?case using Cons by simp
qed

lemma foldl_max_Max: "foldl max (a::real) xs = Max (insert a (set xs))"
proof (induction xs arbitrary: a)
  case Nil then show ?case by simp
next
  case (Cons x xs)
  have "Max (insert (max a x) (set xs)) = Max (insert a (insert x (set xs)))"
    by (cases "set xs = {}") (simp_all add: max.assoc)
  then show ?case using Cons by simp
qed

lemma col_min_Min: "xs \<noteq> [] \<Longrightarrow> col_min xs = Min (set xs)"
  by (cases xs) (simp_all add: col_min_def foldl_min_Min)

lemma col_max_Max: "xs \<noteq> [] \<Longrightarrow> col_max xs = Max (set xs)"
  by (cases xs) (simp_all add: col_max_def foldl_max_Max)

lemma center_coordinates_unfold:
  assumes "distinct (map fst gs)"
  shows "center_coordinates gs =
     (if collect_vertices gs = [] then (gs, (0, 0, 0))
      else (map (\<lambda>(gml_id, geo). (gml_id, center_record (bbox_center (collect_vertices gs)) geo)) gs,
            bbox_center (collect_vertices gs)))"
proof -
  have fo: "foldl (\<lambda>acc (gml_id, geo). dict_set acc gml_id (center_record c geo)) [] gs
        = map (\<lambda>(gml_id, geo). (gml_id, center_record c geo)) gs" for c
    using foldl_dict_set_distinct[OF assms, of "[]" "\<lambda>k. center_record c"] by simp
  show ?thesis by (simp add: center_coordinates_def Let_def fo)
qed

lemma collect_vertices_set:
  "set (collect_vertices gs) = {v. \<exists>(k, g) \<in> set gs. \<exists>p \<in> set (polygons g). v \<in> set p}"
  by (auto simp: collect_vertices_def)

text \<open>
  Claim C2. For a geometry map (a dictionary, so its keys are distinct), let \<open>vs\<close> be the
  set of the vertices of all polygons of all records. When \<open>vs\<close> is empty,
  \<open>center_coordinates\<close> returns the map unchanged with offset \<open>(0, 0, 0)\<close>. Otherwise the
  offset is, on every axis, the midpoint \<open>(min + max) / 2\<close> of the least and the greatest
  coordinate found in \<open>vs\<close>, and the returned map has the same keys in the same order, each
  record keeping its element type and metadata, its polygons in the same order, and every
  vertex of every polygon replaced, in place, by the vertex minus the offset.
\<close>

theorem center_coordinates_midpoint_shift:
  assumes "distinct (map fst gs)"
  shows "center_coordinates gs =
    (let vs = {v. \<exists>(k, g) \<in> set gs. \<exists>p \<in> set (polygons g). v \<in> set p};
         cx = (Min ((\<lambda>(x, y, z). x) ` vs) + Max ((\<lambda>(x, y, z). x) ` vs)) / 2;
         cy = (Min ((\<lambda>(x, y, z). y) ` vs) + Max ((\<lambda>(x, y, z). y) ` vs)) / 2;
         cz = (Min ((\<lambda>(x, y, z). z) ` vs) + Max ((\<lambda>(x, y, z). z) ` vs)) / 2
     in if vs = {} then (gs, (0, 0, 0))
        else (map (\<lambda>(gml_id, geo).
                (gml_id, \<lparr> element_type = element_type geo,
                           polygons = map (map (\<lambda>(x, y, z). (x - cx, y - cy, z - cz))) (polygons geo),
                           metadata = metadata geo \<rparr>)) gs,
              (cx, cy, cz)))"
proof -
  let ?vs = "collect_vertices gs"
  define S where "S = {v. \<exists>(k, g) \<in> set gs. \<exists>p \<in> set (polygons g). v \<in> set p}"
  have S: "S = set ?vs" unfolding S_def by (rule collect_vertices_set[symmetric])
  have e: "S = {} \<longleftrightarrow> ?vs = []" unfolding S by simp
  have pf: "px = (\<lambda>(x, y, z). x)" "py = (\<lambda>(x, y, z). y)" "pz = (\<lambda>(x, y, z). z)"
    by (auto simp: px_def py_def pz_def fun_eq_iff)
  define cx where "cx = (Min ((\<lambda>(x, y, z). x) ` S) + Max ((\<lambda>(x, y, z). x) ` S)) / 2"
  define cy where "cy = (Min ((\<lambda>(x, y, z). y) ` S) + Max ((\<lambda>(x, y, z). y) ` S)) / 2"
  define cz where "cz = (Min ((\<lambda>(x, y, z). z) ` S) + Max ((\<lambda>(x, y, z). z) ` S)) / 2"
  have sh: "shift_point (a, b, c) = (\<lambda>(x, y, z). (x - a, y - b, z - c))" for a b c
    by (auto simp: shift_point_def px_def py_def pz_def fun_eq_iff)
  have cr: "center_record (a, b, c) geo =
      \<lparr> element_type = element_type geo,
        polygons = map (map (\<lambda>(x, y, z). (x - a, y - b, z - c))) (polygons geo),
        metadata = metadata geo \<rparr>" for a b c geo
    by (simp add: center_record_def sh)
  have main: "center_coordinates gs =
     (if S = {} then (gs, (0, 0, 0))
      else (map (\<lambda>(gml_id, geo).
                (gml_id, \<lparr> element_type = element_type geo,
                           polygons = map (map (\<lambda>(x, y, z). (x - cx, y - cy, z - cz))) (polygons geo),
                           metadata = metadata geo \<rparr>)) gs,
              (cx, cy, cz)))"
  proof (cases "?vs = []")
    case True
    then show ?thesis using center_coordinates_unfold[OF assms] e by simp
  next
    case False
    have c: "bbox_center ?vs = (cx, cy, cz)"
      unfolding cx_def cy_def cz_def S using False
      by (simp add: bbox_center_def col_min_Min col_max_Max pf[symmetric])
    have "center_coordinates gs =
        (map (\<lambda>(gml_id, geo). (gml_id, center_record (cx, cy, cz) geo)) gs, (cx, cy, cz))"
      using False center_coordinates_unfold[OF assms] by (simp add: c)
    then show ?thesis using False e by (simp add: cr)
  qed
  show ?thesis
    unfolding Let_def S_def[symmetric] cx_def[symmetric] cy_def[symmetric] cz_def[symmetric]
    by (rule main)
qed

theorem center_coordinates_midpoint_shift_witness:
  "distinct (map fst ex_geos) \<and>
   center_coordinates ex_geos =
     ([(''B1'', \<lparr> element_type = ''Building'',
                polygons = [[(-1, -3, -4), (3, -3, -4), (3, -1, -4)], [(0, -2, 4), (1, -2, 4), (1, -1, 4)]],
                metadata = [(''name'', Some ''Hall'')] \<rparr>),
      (''W1'', \<lparr> element_type = ''WallSurface'',
                polygons = [[(-3, -2, 2), (-1, 3, -3), (0, -2, -3)]],
                metadata = [] \<rparr>)], (1, 3, 4))"
proof -
  have d: "distinct (map fst ex_geos)" by (simp add: ex_geos_def)
  have vs: "{v. \<exists>(k, g) \<in> set ex_geos. \<exists>p \<in> set (polygons g). v \<in> set p} =
      {(0, 0, 0), (4, 0, 0), (4, 2, 0), (1, 1, 8), (2, 1, 8), (2, 2, 8), (-2, 1, 6), (0, 6, 1), (1, 1, 1)}"
    by (auto simp: ex_geos_def)
  show ?thesis
    using d center_coordinates_midpoint_shift[OF d]
    unfolding vs by (simp add: ex_geos_def Let_def)
qed

section \<open>The binary container (gml2glb.py, write_glb)\<close>

lemma le_bytes_sum:
  assumes "n < (2::nat) ^ 32"
  shows "n mod 256 + 256 * (n div 256 mod 256) + 65536 * (n div 65536 mod 256)
           + 16777216 * (n div 16777216 mod 256) = n"
proof -
  define q1 where "q1 = n div 256"
  define q2 where "q2 = q1 div 256"
  define q3 where "q3 = q2 div 256"
  have d2: "n div 65536 = q2"
    using div_mult2_eq[of n 256 256] by (simp add: q1_def q2_def)
  have d3: "n div 16777216 = q3"
    using div_mult2_eq[of n 65536 256] d2 by (simp add: q3_def)
  have s3: "q3 < 256" using assms d3 by (simp add: less_mult_imp_div_less)
  have e0: "n = n mod 256 + 256 * q1" by (simp add: q1_def)
  have e1: "q1 = q1 mod 256 + 256 * q2" by (simp add: q2_def)
  have e2: "q2 = q2 mod 256 + 256 * q3" by (simp add: q3_def)
  have "n mod 256 + 256 * (q1 mod 256) + 65536 * (q2 mod 256) + 16777216 * q3 = n"
    using e0 e1 e2 by linarith
  then show ?thesis using s3 by (simp add: d2 d3 q1_def[symmetric])
qed

lemma pack_u32_ok: "n < 2 ^ 32 \<Longrightarrow> \<exists>bs. pack_u32 n = Inr bs \<and> length bs = 4 \<and> unpack_u32 bs = n"
  using le_bytes_sum[of n] by (simp add: pack_u32_def unpack_u32_def unat_of_nat)

lemma pack_u32_Inr:
  assumes "pack_u32 n = Inr bs"
  shows "n < 2 ^ 32 \<and> length bs = 4 \<and> unpack_u32 bs = n"
proof -
  have n: "n < 2 ^ 32" using assms by (simp add: pack_u32_def split: if_splits)
  from pack_u32_ok[OF n] assms show ?thesis using n by auto
qed

lemma pad_mod4: "(n + (4 - n mod 4) mod 4) mod 4 = (0::nat)"
proof -
  define r where "r = n mod 4"
  have r: "r < 4" by (simp add: r_def)
  have "(n + (4 - r) mod 4) mod 4 = (r + (4 - r) mod 4) mod 4"
    unfolding r_def by (rule mod_add_left_eq[symmetric])
  also have "\<dots> = 0"
  proof -
    from r consider "r = 0" | "r = 1" | "r = 2" | "r = 3" by linarith
    then show ?thesis by cases simp_all
  qed
  finally show ?thesis unfolding r_def .
qed

lemma unpack_u32_take: "length bs = 4 \<Longrightarrow> unpack_u32 (take 4 (bs @ rest)) = unpack_u32 bs"
  by simp

text \<open>The layout of a container that was written.\<close>

lemma write_glb_layout:
  assumes "write_glb js bin = Inr out"
  defines "J \<equiv> js @ replicate ((4 - length js mod 4) mod 4) 0x20"
      and "B \<equiv> bin @ replicate ((4 - length bin mod 4) mod 4) 0x00"
  shows "\<exists>h1 h2 h3 jl jt bl bt.
           out = h1 @ h2 @ h3 @ jl @ jt @ J @ bl @ bt @ B \<and>
           length h1 = 4 \<and> length h2 = 4 \<and> length h3 = 4 \<and> length jl = 4 \<and> length jt = 4 \<and>
           length bl = 4 \<and> length bt = 4 \<and>
           unpack_u32 h1 = 0x46546C67 \<and> unpack_u32 h2 = 2 \<and>
           unpack_u32 h3 = 12 + 8 + length J + 8 + length B \<and>
           unpack_u32 jl = length J \<and> unpack_u32 jt = 0x4E4F534A \<and>
           unpack_u32 bl = length B \<and> unpack_u32 bt = 0x004E4942"
proof -
  from assms(1) obtain h1 h2 h3 jl jt bl bt where
    p: "pack_u32 0x46546C67 = Inr h1" "pack_u32 2 = Inr h2"
       "pack_u32 (12 + 8 + length J + 8 + length B) = Inr h3"
       "pack_u32 (length J) = Inr jl" "pack_u32 0x4E4F534A = Inr jt"
       "pack_u32 (length B) = Inr bl" "pack_u32 0x004E4942 = Inr bt"
    and out: "out = h1 @ h2 @ h3 @ jl @ jt @ J @ bl @ bt @ B"
    unfolding write_glb_def Let_def err_bind_Inr J_def B_def by auto
  show ?thesis
    using p[THEN pack_u32_Inr] out by blast
qed

lemma write_glb_succeeds:
  assumes "12 + 8 + (length js + (4 - length js mod 4) mod 4) + 8
             + (length bin + (4 - length bin mod 4) mod 4) < 2 ^ 32"
  shows "\<exists>out. write_glb js bin = Inr out"
  using assms by (simp add: write_glb_def Let_def err_bind_def pack_u32_def)

text \<open>
  Claim C3. For every container that \<open>write_glb\<close> writes: the JSON chunk is the JSON bytes
  followed by space bytes up to a multiple of four, the binary chunk is the payload
  followed by zero bytes up to a multiple of four, the number of bytes written is
  \<open>12 + 8 + padded JSON length + 8 + padded binary length\<close>, the third header field holds
  exactly that number, each chunk's length field holds its padded length, and the chunk
  type fields hold the constants \<open>0x4E4F534A\<close> and \<open>0x004E4942\<close>.
\<close>

theorem write_glb_total_length:
  assumes "write_glb js bin = Inr out"
  shows "let json_padding = (4 - length js mod 4) mod 4;
             bin_padding = (4 - length bin mod 4) mod 4;
             pj = length js + json_padding;
             pb = length bin + bin_padding
         in pj mod 4 = 0 \<and> pb mod 4 = 0 \<and>
            length out = 12 + 8 + pj + 8 + pb \<and>
            unpack_u32 (take 4 out) = 0x46546C67 \<and>
            unpack_u32 (take 4 (drop 4 out)) = 2 \<and>
            unpack_u32 (take 4 (drop 8 out)) = length out \<and>
            unpack_u32 (take 4 (drop 12 out)) = pj \<and>
            unpack_u32 (take 4 (drop 16 out)) = 0x4E4F534A \<and>
            take pj (drop 20 out) = js @ replicate json_padding 0x20 \<and>
            unpack_u32 (take 4 (drop (20 + pj) out)) = pb \<and>
            unpack_u32 (take 4 (drop (24 + pj) out)) = 0x004E4942 \<and>
            drop (28 + pj) out = bin @ replicate bin_padding 0x00"
proof -
  define J where "J = js @ replicate ((4 - length js mod 4) mod 4) 0x20"
  define B where "B = bin @ replicate ((4 - length bin mod 4) mod 4) 0x00"
  from write_glb_layout[OF assms] obtain h1 h2 h3 jl jt bl bt where
    out: "out = h1 @ h2 @ h3 @ jl @ jt @ J @ bl @ bt @ B"
    and len: "length h1 = 4" "length h2 = 4" "length h3 = 4" "length jl = 4" "length jt = 4"
             "length bl = 4" "length bt = 4"
    and val: "unpack_u32 h1 = 0x46546C67" "unpack_u32 h2 = 2"
             "unpack_u32 h3 = 12 + 8 + length J + 8 + length B"
             "unpack_u32 jl = length J" "unpack_u32 jt = 0x4E4F534A"
             "unpack_u32 bl = length B" "unpack_u32 bt = 0x004E4942"
    unfolding J_def B_def by blast
  have lJ: "length J = length js + (4 - length js mod 4) mod 4" by (simp add: J_def)
  have lB: "length B = length bin + (4 - length bin mod 4) mod 4" by (simp add: B_def)
  have total: "length out = 12 + 8 + length J + 8 + length B" by (simp add: out len)
  have f0: "take 4 out = h1" by (simp add: out len)
  have f1: "take 4 (drop 4 out) = h2" by (simp add: out len)
  have f2: "take 4 (drop 8 out) = h3" by (simp add: out len)
  have f3: "take 4 (drop 12 out) = jl" by (simp add: out len)
  have f4: "take 4 (drop 16 out) = jt" by (simp add: out len)
  have f5: "take (length J) (drop 20 out) = J" by (simp add: out len)
  have f6: "take 4 (drop (20 + length J) out) = bl" by (simp add: out len)
  have f7: "take 4 (drop (24 + length J) out) = bt" by (simp add: out len)
  have f8: "drop (28 + length J) out = B" by (simp add: out len)
  have m: "length J mod 4 = 0" "length B mod 4 = 0"
    unfolding lJ lB by (rule pad_mod4)+
  show ?thesis
    unfolding Let_def lJ[symmetric] lB[symmetric]
    using m total f0 f1 f2 f3 f4 f5 f6 f7 f8 val
    by (simp add: J_def[symmetric] B_def[symmetric])
qed

theorem write_glb_total_length_witness:
  "write_glb [0x7B, 0x7D] [1, 2, 3, 4, 5] =
     Inr [0x67, 0x6C, 0x54, 0x46,  2, 0, 0, 0,  40, 0, 0, 0,
          4, 0, 0, 0,  0x4A, 0x53, 0x4F, 0x4E,  0x7B, 0x7D, 0x20, 0x20,
          8, 0, 0, 0,  0x42, 0x49, 0x4E, 0x00,  1, 2, 3, 4, 5, 0, 0, 0] \<and>
   unpack_u32 (take 4 (drop 8
       [0x67, 0x6C, 0x54, 0x46,  2, 0, 0, 0,  40, 0, 0, 0,
        4, 0, 0, 0,  0x4A, 0x53, 0x4F, 0x4E,  0x7B, 0x7D, 0x20, 0x20,
        8, 0, 0, 0,  0x42, 0x49, 0x4E, 0x00,  1, 2, 3, 4, 5, 0, 0, 0 :: byte])) = 40"
proof -
  have h: "write_glb [0x7B, 0x7D] [1, 2, 3, 4, 5] =
     Inr [0x67, 0x6C, 0x54, 0x46,  2, 0, 0, 0,  40, 0, 0, 0,
          4, 0, 0, 0,  0x4A, 0x53, 0x4F, 0x4E,  0x7B, 0x7D, 0x20, 0x20,
          8, 0, 0, 0,  0x42, 0x49, 0x4E, 0x00,  1, 2, 3, 4, 5, 0, 0, 0]"
  proof -
    have r: "replicate 2 x = [x, x]" "replicate 3 x = [x, x, x]" for x :: byte
      by (simp_all add: numeral_2_eq_2 numeral_3_eq_3)
    show ?thesis
      by (simp add: write_glb_def Let_def err_bind_def pack_u32_def r)
  qed
  show ?thesis
    using h write_glb_total_length[OF h] by (simp add: Let_def unpack_u32_def)
qed

section \<open>Lines of a written text\<close>

subsection \<open>Lines and first words\<close>

lemma lines_from_no_lf:
  "CHR 0x0A \<notin> set s \<Longrightarrow> lines_from cur (s @ rest) = lines_from (cur @ s) rest"
  by (induction s arbitrary: cur) auto

lemma written_lines_one:
  "LF \<notin> set s \<Longrightarrow> written_lines (s @ [LF]) = [s]"
  using lines_from_no_lf[of s "[]" "[CHR 0x0A]"]
  by (simp add: written_lines_def file_lines_def LF_def)

lemma written_lines_led:
  "LF \<notin> set s \<Longrightarrow> written_lines ([LF] @ s @ [LF]) = [[], s]"
  using lines_from_no_lf[of s "[]" "[CHR 0x0A]"]
  by (simp add: written_lines_def file_lines_def LF_def)

lemma written_lines_gap:
  "LF \<notin> set s \<Longrightarrow> written_lines (s @ [LF, LF]) = [s, []]"
  using lines_from_no_lf[of s "[]" "[CHR 0x0A, CHR 0x0A]"]
  by (simp add: written_lines_def file_lines_def LF_def)

lemma written_lines_empty: "written_lines [LF] = [[]]"
  by (simp add: written_lines_def file_lines_def LF_def)

lemma split_from_word:
  assumes "\<forall>c \<in> set w. \<not> is_space c" "is_space sp"
  shows "split_from cur (w @ sp # rest) =
           (if cur @ w = [] then split_from [] rest else (cur @ w) # split_from [] rest)"
  using assms(1)
proof (induction w arbitrary: cur)
  case Nil
  then show ?case using assms(2) by simp
next
  case (Cons c w)
  then show ?case by simp
qed

lemma line_keyword_word:
  assumes "\<forall>c \<in> set w. \<not> is_space c" "w \<noteq> []"
  shows "line_keyword (w @ CHR 0x20 # rest) = w"
proof -
  have sp: "is_space (CHR 0x20)" by (simp add: is_space_def)
  show ?thesis
    using split_from_word[OF assms(1) sp, of "[]" rest] assms(2)
    by (simp add: line_keyword_def py_split_def)
qed

lemma line_keyword_empty: "line_keyword [] = []"
  by (simp add: line_keyword_def py_split_def)

lemma line_keyword_comment: "line_keyword (''# '' @ s) = ''#''"
  using line_keyword_word[of "''#''" s] by (simp add: is_space_def)

lemma line_keyword_group: "line_keyword (''g '' @ s) = ''g''"
  using line_keyword_word[of "''g''" s] by (simp add: is_space_def)

lemma line_keyword_usemtl: "line_keyword (''usemtl '' @ s) = ''usemtl''"
  using line_keyword_word[of "''usemtl''" s] by (simp add: is_space_def)

lemma line_keyword_mtllib: "line_keyword (''mtllib '' @ s) = ''mtllib''"
  using line_keyword_word[of "''mtllib''" s] by (simp add: is_space_def)

lemmas line_keywords_append =
  line_keyword_empty line_keyword_comment line_keyword_group line_keyword_usemtl
  line_keyword_mtllib

lemmas line_keywords = line_keywords_append line_keywords_append[simplified]

lemma material_no_lf: "LF \<notin> set (get_material_for_type et)"
  by (simp add: get_material_for_type_def LF_def)

section \<open>Face records of the OBJ writer\<close>

lemma triangulate_polygon_shape:
  assumes "t \<in> set (triangulate_polygon vs)"
  shows "length t = 3 \<and> t ! 0 < length vs \<and> t ! 1 < length vs \<and> t ! 2 < length vs"
proof -
  from assms obtain i where t: "t = [0, i, i + 1]" and i: "1 \<le> i" "i < length (strip_closing vs) - 1"
    by (auto simp: triangulate_polygon_def Let_def split: if_splits)
  have "i + 1 < length vs" using i strip_closing_length_le[of vs] by linarith
  then show ?thesis by (auto simp: t)
qed

subsection \<open>Reading a piece of a file\<close>

lemma faces_ok_skip:
  assumes "face_refs l = None" "\<not> is_group l" "\<not> is_vertex l" "\<not> is_normal l"
  shows "faces_ok gv gn v n (l # ls) = faces_ok gv gn v n ls"
  using assms by simp

lemma faces_ok_append:
  "faces_ok gv gn v n (xs @ ys) \<longleftrightarrow>
     faces_ok gv gn v n xs \<and>
     faces_ok (group_mark is_vertex gv v xs) (group_mark is_normal gn n xs)
              (v + vertex_records xs) (n + normal_records xs) ys"
proof (induction xs arbitrary: gv gn v n)
  case Nil
  then show ?case by (simp add: vertex_records_def normal_records_def)
next
  case (Cons l xs)
  show ?case
    by (simp add: Cons.IH vertex_records_def normal_records_def del: faces_ok.simps(2))
       (auto simp: Cons.IH vertex_records_def normal_records_def)
qed

lemma group_mark_le: "g \<le> c \<Longrightarrow> g \<le> group_mark cnt g c ls"
proof (induction ls arbitrary: g c)
  case Nil then show ?case by simp
next
  case (Cons l ls)
  have "(if is_group l then c else g) \<le> (if cnt l then Suc c else c)" using Cons.prems by simp
  from Cons.IH[OF this] Cons.prems show ?case by (auto split: if_splits)
qed

lemma group_mark_ge_group:
  assumes "i < length xs" "is_group (xs ! i)" "g \<le> c"
  shows "c + length (filter cnt (take i xs)) \<le> group_mark cnt g c xs"
  using assms
proof (induction xs arbitrary: g c i)
  case Nil then show ?case by simp
next
  case (Cons l xs)
  show ?case
  proof (cases i)
    case 0
    then have "is_group l" using Cons.prems(2) by simp
    then have "group_mark cnt g c (l # xs) = group_mark cnt c (if cnt l then Suc c else c) xs"
      by simp
    moreover have "c \<le> group_mark cnt c (if cnt l then Suc c else c) xs"
      by (rule group_mark_le) simp
    ultimately show ?thesis using 0 by simp
  next
    case (Suc i')
    have le: "(if is_group l then c else g) \<le> (if cnt l then Suc c else c)"
      using Cons.prems(3) by simp
    from Cons.IH[of i', OF _ _ le] Cons.prems(1,2) Suc
    have "(if cnt l then Suc c else c) + length (filter cnt (take i' xs))
            \<le> group_mark cnt (if is_group l then c else g) (if cnt l then Suc c else c) xs"
      by simp
    then show ?thesis using Suc by (cases "is_group l"; cases "cnt l") simp_all
  qed
qed

lemma refs_between_iff: "refs_between lo hi rs \<longleftrightarrow> (\<forall>r \<in> set rs. lo < r \<and> r \<le> hi)"
  by (simp add: refs_between_def list_all_iff)

lemma faces_ok_nth:
  assumes "faces_ok 0 0 0 0 ls" "j < length ls" "face_refs (ls ! j) = Some (vr, nr)"
  shows "(\<forall>a \<in> set vr. 1 \<le> a \<and> a \<le> vertex_records (take j ls)) \<and>
         (\<forall>k \<in> set nr. 1 \<le> k \<and> k \<le> normal_records (take j ls)) \<and>
         (\<forall>i < j. is_group (ls ! i) \<longrightarrow>
            (\<forall>a \<in> set vr. vertex_records (take i ls) < a) \<and>
            (\<forall>k \<in> set nr. normal_records (take i ls) < k))"
proof -
  have split: "ls = take j ls @ ls ! j # drop (Suc j) ls"
    using assms(2) by (simp add: id_take_nth_drop)
  have "faces_ok 0 0 0 0 (take j ls @ ls ! j # drop (Suc j) ls)"
    using assms(1) split by simp
  then have b: "refs_between (group_mark is_vertex 0 0 (take j ls)) (vertex_records (take j ls)) vr"
            "refs_between (group_mark is_normal 0 0 (take j ls)) (normal_records (take j ls)) nr"
    using assms(3) by (simp_all add: faces_ok_append)
  have up: "(\<forall>a \<in> set vr. 1 \<le> a \<and> a \<le> vertex_records (take j ls))"
           "(\<forall>k \<in> set nr. 1 \<le> k \<and> k \<le> normal_records (take j ls))"
    using b by (auto simp: refs_between_iff)
  have lo: "(\<forall>a \<in> set vr. vertex_records (take i ls) < a) \<and>
            (\<forall>k \<in> set nr. normal_records (take i ls) < k)" if i: "i < j" "is_group (ls ! i)" for i
  proof -
    have l: "i < length (take j ls)" using i(1) assms(2) by simp
    have g: "is_group (take j ls ! i)" using i by simp
    have t: "min i j = i" using i(1) by simp
    from group_mark_ge_group[OF l g, of 0 0 is_vertex]
    have "vertex_records (take i ls) \<le> group_mark is_vertex 0 0 (take j ls)"
      by (simp add: t vertex_records_def)
    moreover from group_mark_ge_group[OF l g, of 0 0 is_normal]
    have "normal_records (take i ls) \<le> group_mark is_normal 0 0 (take j ls)"
      by (simp add: t normal_records_def)
    ultimately show ?thesis using b by (fastforce simp: refs_between_iff)
  qed
  show ?thesis using up lo by blast
qed

subsection \<open>The lines of a group\<close>

lemma write_polygons_props:
  assumes "write_polygons vc vo ps = (ls, gvs, gfs)"
  shows "(\<forall>l \<in> set ls. (\<exists>p. l = V p) \<or> (\<exists>p. l = VN p)) \<and>
         vertex_records ls = length gvs \<and> normal_records ls = length gfs \<and>
         (\<forall>(a, b, c) \<in> set gfs. vc + vo \<le> a \<and> a < vc + vo + length gvs \<and>
                                    vc + vo \<le> b \<and> b < vc + vo + length gvs \<and>
                                    vc + vo \<le> c \<and> c < vc + vo + length gvs)"
  using assms
proof (induction ps arbitrary: vo ls gvs gfs)
  case Nil
  then show ?case by (simp add: vertex_records_def normal_records_def)
next
  case (Cons polygon rest)
  show ?case
  proof (cases "length polygon < 3")
    case True
    then have "write_polygons vc vo rest = (ls, gvs, gfs)" using Cons.prems by simp
    from Cons.IH[OF this] show ?thesis .
  next
    case False
    obtain ls' gvs' gfs' where r: "write_polygons vc (vo + length polygon) rest = (ls', gvs', gfs')"
      by (cases "write_polygons vc (vo + length polygon) rest") auto
    let ?tris = "triangulate_polygon polygon"
    have ls: "ls = map V polygon @ map VN (map (\<lambda>tri. calculate_normal (polygon ! (tri ! 0))
                (polygon ! (tri ! 1)) (polygon ! (tri ! 2))) ?tris) @ ls'"
      and gvs: "gvs = polygon @ gvs'"
      and gfs: "gfs = map (\<lambda>tri. (vc + vo + tri ! 0, vc + vo + tri ! 1, vc + vo + tri ! 2)) ?tris @ gfs'"
      using Cons.prems False r by (simp_all add: Let_def)
    note ih = Cons.IH[OF r]
    have a: "\<forall>l \<in> set ls. (\<exists>p. l = V p) \<or> (\<exists>p. l = VN p)"
    proof
      fix l assume "l \<in> set ls"
      then consider "l \<in> V ` set polygon" | "l \<in> set ls'"
        | "l \<in> VN ` set (map (\<lambda>tri. calculate_normal (polygon ! (tri ! 0))
                (polygon ! (tri ! 1)) (polygon ! (tri ! 2))) ?tris)"
        unfolding ls by (simp only: set_append set_map Un_iff) blast
      then show "(\<exists>p. l = V p) \<or> (\<exists>p. l = VN p)"
        using ih by cases blast+
    qed
    have fV: "filter is_vertex (map V xs) = map V xs" "filter is_normal (map V xs) = []" for xs
      by (induction xs) simp_all
    have fN: "filter is_vertex (map VN xs) = []" "filter is_normal (map VN xs) = map VN xs" for xs
      by (induction xs) simp_all
    have b: "vertex_records ls = length gvs" "normal_records ls = length gfs"
      using ih by (simp_all add: ls gvs gfs vertex_records_def normal_records_def fV fN)
    have c: "\<forall>(a, b, c) \<in> set gfs. vc + vo \<le> a \<and> a < vc + vo + length gvs \<and>
                                   vc + vo \<le> b \<and> b < vc + vo + length gvs \<and>
                                   vc + vo \<le> c \<and> c < vc + vo + length gvs"
    proof (clarify)
      fix a b c assume m: "(a, b, c) \<in> set gfs"
      then consider (new) "(a, b, c) \<in> set (map (\<lambda>tri. (vc + vo + tri ! 0, vc + vo + tri ! 1, vc + vo + tri ! 2)) ?tris)"
        | (old) "(a, b, c) \<in> set gfs'" by (auto simp: gfs)
      then show "vc + vo \<le> a \<and> a < vc + vo + length gvs \<and>
                 vc + vo \<le> b \<and> b < vc + vo + length gvs \<and>
                 vc + vo \<le> c \<and> c < vc + vo + length gvs"
      proof cases
        case new
        then obtain tri where tri: "tri \<in> set ?tris"
          and e: "a = vc + vo + tri ! 0" "b = vc + vo + tri ! 1" "c = vc + vo + tri ! 2" by auto
        from triangulate_polygon_shape[OF tri] show ?thesis by (simp add: e gvs)
      next
        case old
        with ih have "vc + (vo + length polygon) \<le> a \<and> a < vc + (vo + length polygon) + length gvs' \<and>
                 vc + (vo + length polygon) \<le> b \<and> b < vc + (vo + length polygon) + length gvs' \<and>
                 vc + (vo + length polygon) \<le> c \<and> c < vc + (vo + length polygon) + length gvs'"
          by auto
        then show ?thesis by (simp add: gvs)
      qed
    qed
    show ?thesis using a b c by blast
  qed
qed

lemma faces_ok_vertex_lines:
  assumes "\<forall>l \<in> set ls. (\<exists>p. l = V p) \<or> (\<exists>p. l = VN p)"
  shows "faces_ok gv gn v n (ls @ rest) =
           faces_ok gv gn (v + vertex_records ls) (n + normal_records ls) rest"
  using assms
proof (induction ls arbitrary: v n)
  case Nil then show ?case by (simp add: vertex_records_def normal_records_def)
next
  case (Cons l ls)
  then have r: "\<forall>l \<in> set ls. (\<exists>p. l = V p) \<or> (\<exists>p. l = VN p)" by simp
  from Cons.prems consider p where "l = V p" | p where "l = VN p" by auto
  then show ?case
    by cases (simp_all add: Cons.IH[OF r] vertex_records_def normal_records_def)
qed

lemma faces_ok_face_lines:
  assumes "\<forall>l \<in> set ls. \<exists>a b c k. l = F (a, b, c) k \<and> gv < a \<and> a \<le> v \<and> gv < b \<and> b \<le> v \<and>
              gv < c \<and> c \<le> v \<and> gn < k \<and> k \<le> n"
  shows "faces_ok gv gn v n ls \<and> vertex_records ls = 0 \<and> normal_records ls = 0"
  using assms
proof (induction ls)
  case Nil then show ?case by (simp add: vertex_records_def normal_records_def)
next
  case (Cons l ls)
  then obtain a b c k where l: "l = F (a, b, c) k" by auto
  from Cons show ?case
    by (auto simp: l vertex_records_def normal_records_def refs_between_def)
qed

text \<open>The lines of a group whose identifier and element type hold no line feed.\<close>

lemma write_group_lines:
  assumes "LF \<notin> set gml_id" "LF \<notin> set (element_type geo)"
      and "write_polygons (vertex_count w) 0 (polygons geo) = (pl, gvs, gfs)"
  shows "write_group w gml_id geo =
           ([Text [], Text (''# '' @ gml_id @ '' ('' @ element_type geo @ '')''),
             Text (''g '' @ gml_id),
             Text (''usemtl '' @ get_material_for_type (element_type geo)), Text []]
            @ pl @ [Text []]
            @ map (\<lambda>(i, face). F face (normal_count w + i)) (zip [0 ..< length gfs] gfs),
            \<lparr> vertex_count = vertex_count w + length gvs,
              normal_count = normal_count w + length gfs \<rparr>)"
proof -
  have c: "LF \<notin> set (''# '' @ gml_id @ '' ('' @ element_type geo @ '')'')"
    using assms(1,2) by (simp add: LF_def)
  have g: "LF \<notin> set (''g '' @ gml_id)" using assms(1) by (simp add: LF_def)
  have u: "LF \<notin> set (''usemtl '' @ get_material_for_type (element_type geo))"
    using material_no_lf[of "element_type geo"] by (simp add: LF_def)
  have wc: "written_lines ([LF] @ ''# '' @ gml_id @ '' ('' @ element_type geo @ '')'' @ [LF])
              = [[], ''# '' @ gml_id @ '' ('' @ element_type geo @ '')'']"
    using written_lines_led[OF c] by simp
  have wg: "written_lines (''g '' @ gml_id @ [LF]) = [''g '' @ gml_id]"
    using written_lines_one[OF g] by simp
  have wu: "written_lines (''usemtl '' @ get_material_for_type (element_type geo) @ [LF, LF])
              = [''usemtl '' @ get_material_for_type (element_type geo), []]"
    using written_lines_gap[OF u] by simp
  show ?thesis
    unfolding write_group_def Let_def assms(3) wc wg wu written_lines_empty
    by simp
qed

lemma write_group_ok:
  assumes lf: "LF \<notin> set gml_id" "LF \<notin> set (element_type geo)"
      and w: "vertex_count w = Suc v" "normal_count w = Suc n"
      and g: "write_group w gml_id geo = (ls, w')"
  shows "faces_ok gv gn v n ls \<and>
         group_mark is_vertex gv v ls \<le> v + vertex_records ls \<and>
         group_mark is_normal gn n ls \<le> n + normal_records ls \<and>
         vertex_count w' = Suc (v + vertex_records ls) \<and>
         normal_count w' = Suc (n + normal_records ls)"
proof -
  obtain pl gvs gfs where p: "write_polygons (vertex_count w) 0 (polygons geo) = (pl, gvs, gfs)"
    by (cases "write_polygons (vertex_count w) 0 (polygons geo)") auto
  define fl where "fl = map (\<lambda>(i, face). F face (normal_count w + i)) (zip [0 ..< length gfs] gfs)"
  define hd5 where "hd5 = [Text [], Text (''# '' @ gml_id @ '' ('' @ element_type geo @ '')''),
             Text (''g '' @ gml_id),
             Text (''usemtl '' @ get_material_for_type (element_type geo)), Text []]"
  have ls: "ls = hd5 @ pl @ [Text []] @ fl"
    and w': "w' = \<lparr> vertex_count = vertex_count w + length gvs,
                     normal_count = normal_count w + length gfs \<rparr>"
    using g write_group_lines[OF lf p] by (simp_all add: fl_def hd5_def)
  note pp = write_polygons_props[OF p]
  have faces: "\<forall>l \<in> set fl. \<exists>a b c k. l = F (a, b, c) k \<and>
        v < a \<and> a \<le> v + length gvs \<and> v < b \<and> b \<le> v + length gvs \<and>
        v < c \<and> c \<le> v + length gvs \<and> n < k \<and> k \<le> n + length gfs"
  proof
    fix l assume "l \<in> set fl"
    then obtain i face where m: "(i, face) \<in> set (zip [0 ..< length gfs] gfs)"
      and l: "l = F face (normal_count w + i)" by (auto simp: fl_def)
    from m have i: "i < length gfs" and f: "face \<in> set gfs"
      by (auto dest: set_zip_leftD set_zip_rightD)
    obtain a b c where face: "face = (a, b, c)" by (cases face)
    from pp f face have "vertex_count w \<le> a \<and> a < vertex_count w + length gvs \<and>
        vertex_count w \<le> b \<and> b < vertex_count w + length gvs \<and>
        vertex_count w \<le> c \<and> c < vertex_count w + length gvs" by auto
    then show "\<exists>a b c k. l = F (a, b, c) k \<and>
        v < a \<and> a \<le> v + length gvs \<and> v < b \<and> b \<le> v + length gvs \<and>
        v < c \<and> c \<le> v + length gvs \<and> n < k \<and> k \<le> n + length gfs"
      using i w by (auto simp: l face)
  qed
  note fo = faces_ok_face_lines[OF faces]
  have vv: "\<forall>l \<in> set pl. (\<exists>p. l = V p) \<or> (\<exists>p. l = VN p)" using pp by blast
  have tail: "faces_ok v n v n (pl @ [Text []] @ fl)"
    using faces_ok_vertex_lines[OF vv, of v n v n "[Text []] @ fl"] pp fo
    by (simp add: line_keywords)
  have ok: "faces_ok gv gn v n ls"
    using tail by (simp add: ls hd5_def line_keywords)
  have cv: "vertex_records hd5 = 0" "normal_records hd5 = 0"
    by (simp_all add: hd5_def vertex_records_def normal_records_def line_keywords)
  have cnt: "vertex_records ls = length gvs" "normal_records ls = length gfs"
    using pp fo cv by (simp_all add: ls vertex_records_def normal_records_def line_keywords)
  have gm: "group_mark cnt g0 c0 (pl @ [Text []] @ fl) = g0" for cnt g0 c0
  proof -
    have ng: "\<forall>l \<in> set (pl @ [Text []] @ fl). \<not> is_group l"
      using vv by (auto simp: fl_def line_keywords)
    have "\<forall>l \<in> set xs. \<not> is_group l \<Longrightarrow> group_mark cnt g0 c0 xs = g0" for xs
      by (induction xs arbitrary: c0) simp_all
    from this[OF ng] show ?thesis .
  qed
  have mv: "group_mark is_vertex gv v ls = v" "group_mark is_normal gn n ls = n"
    by (simp_all add: ls hd5_def line_keywords gm gm[simplified])
  show ?thesis using ok cnt w mv by (simp add: w')
qed

lemma write_groups_ok:
  assumes "\<forall>(k, g) \<in> set geos. LF \<notin> set k \<and> LF \<notin> set (element_type g)"
      and "vertex_count w = Suc v" "normal_count w = Suc n" "gv \<le> v" "gn \<le> n"
  shows "faces_ok gv gn v n (write_groups w geos)"
  using assms
proof (induction geos arbitrary: w v n gv gn)
  case Nil then show ?case by simp
next
  case (Cons kg rest)
  obtain gml_id geo where kg: "kg = (gml_id, geo)" by (cases kg)
  obtain ls w' where g: "write_group w gml_id geo = (ls, w')" by (cases "write_group w gml_id geo")
  have lf: "LF \<notin> set gml_id" "LF \<notin> set (element_type geo)" using Cons.prems(1) kg by auto
  have r: "\<forall>(k, g) \<in> set rest. LF \<notin> set k \<and> LF \<notin> set (element_type g)"
    using Cons.prems(1) by simp
  from write_group_ok[OF lf Cons.prems(2,3) g, of gv gn]
  have ok: "faces_ok gv gn v n ls"
    and m: "group_mark is_vertex gv v ls \<le> v + vertex_records ls"
           "group_mark is_normal gn n ls \<le> n + normal_records ls"
    and c: "vertex_count w' = Suc (v + vertex_records ls)"
           "normal_count w' = Suc (n + normal_records ls)" by simp_all
  from Cons.IH[OF r c m] ok show ?case by (simp add: kg g faces_ok_append)
qed

lemma write_single_obj_ok:
  assumes "LF \<notin> set mtl" "\<forall>(k, g) \<in> set geos. LF \<notin> set k \<and> LF \<notin> set (element_type g)"
  shows "faces_ok 0 0 0 0 (fst (write_single_obj mtl geos off))"
proof -
  have m: "LF \<notin> set (''mtllib '' @ mtl)" using assms(1) by (simp add: LF_def)
  have t: "LF \<notin> set ''# CityGML to OBJ Conversion''" by (simp add: LF_def)
  have wm: "written_lines (''mtllib '' @ mtl @ [LF, LF]) = [''mtllib '' @ mtl, []]"
    using written_lines_gap[OF m] by simp
  have wt: "written_lines (''# CityGML to OBJ Conversion'' @ [LF]) = [''# CityGML to OBJ Conversion'']"
    using written_lines_one[OF t] by simp
  have k: "line_keyword ''# CityGML to OBJ Conversion'' = ''#''"
    using line_keyword_comment[of "''CityGML to OBJ Conversion''"] by simp
  have "faces_ok 0 0 0 0 (write_groups \<lparr> vertex_count = 1, normal_count = 1 \<rparr> geos)"
    by (rule write_groups_ok[OF assms(2)]) simp_all
  then show ?thesis
    unfolding write_single_obj_def wm wt
    by (simp add: line_keywords k k[simplified])
qed

text \<open>
  Claim C10, for geometry maps whose identifiers and element types hold no line feed, with
  a name of the material library that holds none. In the file that \<open>write_single_obj\<close>
  writes, every vertex reference of every face record lies between 1 and the number of
  vertex records that precede the face record in the file, and every normal reference
  between 1 and the number of normal records that precede it. The counters run through
  the whole file: every reference of a face record is greater than the number of vertex
  records, or normal records, that precede any group record standing before the face
  record, so that a face refers to what its own group has written.
\<close>

theorem obj_faces_reference_written_records:
  assumes "LF \<notin> set mtl"
      and "\<forall>(k, g) \<in> set geos. LF \<notin> set k \<and> LF \<notin> set (element_type g)"
  shows "let ls = fst (write_single_obj mtl geos off) in
         \<forall>j vr nr. j < length ls \<and> face_refs (ls ! j) = Some (vr, nr) \<longrightarrow>
           (\<forall>a \<in> set vr. 1 \<le> a \<and> a \<le> vertex_records (take j ls)) \<and>
           (\<forall>k \<in> set nr. 1 \<le> k \<and> k \<le> normal_records (take j ls)) \<and>
           (\<forall>i < j. is_group (ls ! i) \<longrightarrow>
              (\<forall>a \<in> set vr. vertex_records (take i ls) < a) \<and>
              (\<forall>k \<in> set nr. normal_records (take i ls) < k))"
  using faces_ok_nth[OF write_single_obj_ok[OF assms, of off]]
  unfolding Let_def by blast

lemma ex_obj_lines:
  "fst (write_single_obj ''city.mtl'' ex_geos (1, 3, 4)) =
     [Text ''# CityGML to OBJ Conversion'', TotalObjects 2, CenterOffset (1, 3, 4),
      Text ''mtllib city.mtl'', Text [],
      Text [], Text ''# B1 (Building)'', Text ''g B1'', Text ''usemtl building'', Text [],
      V (0, 0, 0), V (4, 0, 0), V (4, 2, 0),
      VN (calculate_normal (0, 0, 0) (4, 0, 0) (4, 2, 0)),
      V (1, 1, 8), V (2, 1, 8), V (2, 2, 8),
      VN (calculate_normal (1, 1, 8) (2, 1, 8) (2, 2, 8)),
      Text [], F (1, 2, 3) 1, F (4, 5, 6) 2,
      Text [], Text ''# W1 (WallSurface)'', Text ''g W1'', Text ''usemtl wall'', Text [],
      V (-2, 1, 6), V (0, 6, 1), V (1, 1, 1),
      VN (calculate_normal (-2, 1, 6) (0, 6, 1) (1, 1, 1)),
      Text [], F (7, 8, 9) 3]"
  by (simp add: write_single_obj_def ex_geos_def write_group_def Let_def triangulate_polygon_def
        strip_closing_def get_material_for_type_def upt_rec written_lines_def file_lines_def LF_def)

theorem obj_faces_reference_written_records_witness:
  "LF \<notin> set ''city.mtl'' \<and>
   map (\<lambda>(k, g). (k, element_type g)) ex_geos = [(''B1'', ''Building''), (''W1'', ''WallSurface'')] \<and>
   LF \<notin> set ''B1'' \<and> LF \<notin> set ''Building'' \<and> LF \<notin> set ''W1'' \<and> LF \<notin> set ''WallSurface'' \<and>
   face_refs (fst (write_single_obj ''city.mtl'' ex_geos (1, 3, 4)) ! 31) = Some ([7, 8, 9], [3]) \<and>
   is_group (fst (write_single_obj ''city.mtl'' ex_geos (1, 3, 4)) ! 23) \<and>
   vertex_records (take 23 (fst (write_single_obj ''city.mtl'' ex_geos (1, 3, 4)))) < 7 \<and>
   9 \<le> vertex_records (take 31 (fst (write_single_obj ''city.mtl'' ex_geos (1, 3, 4)))) \<and>
   normal_records (take 23 (fst (write_single_obj ''city.mtl'' ex_geos (1, 3, 4)))) < 3 \<and>
   3 \<le> normal_records (take 31 (fst (write_single_obj ''city.mtl'' ex_geos (1, 3, 4))))"
proof -
  let ?file = "fst (write_single_obj ''city.mtl'' ex_geos (1, 3, 4))"
  have h1: "LF \<notin> set ''city.mtl''" by (simp add: LF_def)
  have h2: "\<forall>(k, g) \<in> set ex_geos. LF \<notin> set k \<and> LF \<notin> set (element_type g)"
    by (simp add: ex_geos_def LF_def)
  have f: "31 < length ?file \<and> face_refs (?file ! 31) = Some ([7, 8, 9], [3])"
    by (simp add: ex_obj_lines)
  have g: "(23::nat) < 31" "is_group (?file ! 23)"
    by (simp_all add: ex_obj_lines line_keywords)
  from obj_faces_reference_written_records[OF h1 h2, of "(1, 3, 4)", unfolded Let_def,
        rule_format, OF f]
  have "(\<forall>a \<in> set [7, 8, 9]. 1 \<le> a \<and> a \<le> vertex_records (take 31 ?file)) \<and>
        (\<forall>k \<in> set [3]. 1 \<le> k \<and> k \<le> normal_records (take 31 ?file)) \<and>
        (\<forall>i < 31. is_group (?file ! i) \<longrightarrow>
              (\<forall>a \<in> set [7, 8, 9]. vertex_records (take i ?file) < a) \<and>
              (\<forall>k \<in> set [3]. normal_records (take i ?file) < k))" .
  then have "9 \<le> vertex_records (take 31 ?file) \<and> 3 \<le> normal_records (take 31 ?file) \<and>
             vertex_records (take 23 ?file) < 7 \<and> normal_records (take 23 ?file) < 3"
    using g by auto
  moreover have "map (\<lambda>(k, g). (k, element_type g)) ex_geos
      = [(''B1'', ''Building''), (''W1'', ''WallSurface'')]"
    by (simp add: ex_geos_def)
  moreover have "LF \<notin> set ''B1'' \<and> LF \<notin> set ''Building'' \<and> LF \<notin> set ''W1''
      \<and> LF \<notin> set ''WallSurface''"
    by (simp add: LF_def)
  ultimately show ?thesis using h1 f g by blast
qed

text \<open>
  Claim C10 as it is written, for every file of the writer. The identifier of
  \<open>ex_inject_geos\<close> holds a line feed, and the writer puts identifiers into the file as they
  are: the tenth line of the file is a face record with the references 9, standing where
  no vertex record and no normal record has been written.
\<close>

theorem obj_face_line_from_identifier:
  "fst (write_single_obj ''city.mtl'' ex_inject_geos (0, 0, 0)) ! 9 = Text ''f 9//9 9//9 9//9'' \<and>
   face_refs (Text ''f 9//9 9//9 9//9'') = Some ([9, 9, 9], [9, 9, 9]) \<and>
   vertex_records (take 9 (fst (write_single_obj ''city.mtl'' ex_inject_geos (0, 0, 0)))) = 0 \<and>
   normal_records (take 9 (fst (write_single_obj ''city.mtl'' ex_inject_geos (0, 0, 0)))) = 0"
proof -
  have lines: "fst (write_single_obj ''city.mtl'' ex_inject_geos (0, 0, 0)) =
     [Text ''# CityGML to OBJ Conversion'', TotalObjects 1, CenterOffset (0, 0, 0),
      Text ''mtllib city.mtl'', Text [],
      Text [], Text ''# X'', Text ''f 9//9 9//9 9//9 (Building)'',
      Text ''g X'', Text ''f 9//9 9//9 9//9'', Text ''usemtl building'', Text [], Text []]"
    by (simp add: write_single_obj_def ex_inject_geos_def write_group_def Let_def
          get_material_for_type_def written_lines_def file_lines_def LF_def)
  have k: "line_keyword ''# CityGML to OBJ Conversion'' = ''#''"
          "line_keyword ''mtllib city.mtl'' = ''mtllib''"
          "line_keyword ''# X'' = ''#''"
          "line_keyword ''f 9//9 9//9 9//9 (Building)'' = ''f''"
          "line_keyword ''g X'' = ''g''"
          "line_keyword ''f 9//9 9//9 9//9'' = ''f''"
    by (simp_all add: line_keyword_def py_split_def is_space_def)
  have sp: "py_split ''f 9//9 9//9 9//9'' = [''f'', ''9//9'', ''9//9'', ''9//9'']"
    by (simp add: py_split_def is_space_def)
  have c: "vertex_ref ''9//9'' = 9" "normal_ref ''9//9'' = 9"
    by (simp_all add: vertex_ref_def normal_ref_def digits_value_def)
  have r: "face_refs (Text ''f 9//9 9//9 9//9'') = Some ([9, 9, 9], [9, 9, 9])"
    by (simp add: k sp c)
  show ?thesis
    by (simp add: lines r k sp c line_keyword_empty vertex_records_def normal_records_def)
qed

section \<open>Coordinate extraction\<close>

lemmas xml_query_defs =
  findall_desc_def xpath_all_def find_desc_def findall_child_def find_child_def get_attr_def
  truthy_text_def found_text_def gml_id_of_def qname_def gml_ns_def bldg_ns_def local_name_def

lemmas string_defs = py_split_def py_strip_def is_space_def

lemmas example_defs =
  ring_of_poslist_def polygon_of_ring_def mk_wall_surface_def mk_building_def mk_city_model_def
  digits_float_def digits_int_def digits_value_def is_digit_def

lemma split_9: "py_split ''0 0 0 4 0 0 4 0 3'' = [''0'', ''0'', ''0'', ''4'', ''0'', ''0'', ''4'', ''0'', ''3'']"
  by (simp add: string_defs)

lemma split_9x: "py_split ''0 0 0 4 0 0 4 0 x'' = [''0'', ''0'', ''0'', ''4'', ''0'', ''0'', ''4'', ''0'', ''x'']"
  by (simp add: string_defs)

lemma split_8: "py_split ''0 0 0 4 0 0 4 0'' = [''0'', ''0'', ''0'', ''4'', ''0'', ''0'', ''4'', ''0'']"
  by (simp add: string_defs)

lemma digits_float_tokens:
  "digits_float ''0'' = Some 0" "digits_float ''2'' = Some 2" "digits_float ''3'' = Some 3"
  "digits_float ''4'' = Some 4" "digits_float ''6'' = Some 6" "digits_float ''x'' = None"
  by (simp_all add: digits_float_def digits_value_def is_digit_def)

text \<open>
  Claim C7. A ring may give its vertices as a packed list or as position nodes, and when
  both are present the packed list alone determines the vertices. On a ring that holds
  three position nodes and a packed list of three triples, the building-grouping parser
  (\<open>glb_ring_points\<close>) returns the three vertices of the packed list, but
  \<open>extract_polygon_coordinates\<close> of parser.py returns six vertices: those of the position
  nodes followed by those of the packed list.
\<close>

theorem both_encodings_are_appended:
  "extract_polygon_coordinates digits_float (polygon_of_ring ex_ring_both)
     = [(0, 0, 0), (4, 0, 0), (4, 0, 3), (0, 0, 0), (4, 0, 0), (4, 0, 3)] \<and>
   glb_ring_points digits_float ex_ring_both = Inr [(0, 0, 0), (4, 0, 0), (4, 0, 3)]"
  by (simp add: extract_polygon_coordinates_def glb_ring_points_def pos_coordinates_def
        ex_ring_both_def polygon_of_ring_def xml_query_defs string_defs float3_def
        digits_float_tokens err_bind_def)

text \<open>
  Claim C6. A coordinate token that is no number, or a packed list whose number of tokens
  is no multiple of three, is passed over and the parse of the document completes. The
  parser of parser.py does so on both example documents; the parsers of gml2glb.py and of
  simple_gml2obj.py end with \<^verbatim>\<open>ValueError\<close> on the first document and with
  \<^verbatim>\<open>IndexError\<close> on the second.
\<close>

theorem packed_list_errors_end_the_parse:
  "glb_parse_citygml digits_float digits_int ex_doc_token = Inl ValueError \<and>
   glb_parse_citygml digits_float digits_int ex_doc_short = Inl IndexError \<and>
   simple_parse_citygml digits_float ex_doc_token = Inl ValueError \<and>
   simple_parse_citygml digits_float ex_doc_short = Inl IndexError \<and>
   parse digits_float ex_doc_token =
     [(''B1'', \<lparr> element_type = ''Building'', polygons = [[(0, 0, 0), (4, 0, 0)]], metadata = [] \<rparr>),
      (''W1'', \<lparr> element_type = ''WallSurface'', polygons = [[(0, 0, 0), (4, 0, 0)]], metadata = [] \<rparr>)] \<and>
   parse digits_float ex_doc_short =
     [(''B1'', \<lparr> element_type = ''Building'', polygons = [[(0, 0, 0), (4, 0, 0)]], metadata = [] \<rparr>),
      (''W1'', \<lparr> element_type = ''WallSurface'', polygons = [[(0, 0, 0), (4, 0, 0)]], metadata = [] \<rparr>)]"
proof -
  have g1: "glb_parse_citygml digits_float digits_int ex_doc_token = Inl ValueError"
    by (simp add: glb_parse_citygml_def glb_add_building_def glb_update_attributes_def set_description_def set_measured_height_def
          set_storeys_above_def set_storeys_below_def
          glb_add_surfaces_def glb_surface_types_def glb_add_polygon_def glb_ring_points_def
          new_building_info_def dict_get_def ex_doc_token_def example_defs xml_query_defs
          split_9x digits_float_tokens err_bind_def Let_def)
  have g2: "glb_parse_citygml digits_float digits_int ex_doc_short = Inl IndexError"
    by (simp add: glb_parse_citygml_def glb_add_building_def glb_update_attributes_def set_description_def set_measured_height_def
          set_storeys_above_def set_storeys_below_def
          glb_add_surfaces_def glb_surface_types_def glb_add_polygon_def glb_ring_points_def
          new_building_info_def dict_get_def ex_doc_short_def example_defs xml_query_defs
          split_8 digits_float_tokens err_bind_def Let_def)
  have s1: "simple_parse_citygml digits_float ex_doc_token = Inl ValueError"
    by (simp add: simple_parse_citygml_def simple_add_surface_def simple_add_polygon_def
          simple_surface_tags_def ex_doc_token_def example_defs xml_query_defs
          split_9x digits_float_tokens err_bind_def Let_def)
  have s2: "simple_parse_citygml digits_float ex_doc_short = Inl IndexError"
    by (simp add: simple_parse_citygml_def simple_add_surface_def simple_add_polygon_def
          simple_surface_tags_def ex_doc_short_def example_defs xml_query_defs
          split_8 digits_float_tokens err_bind_def Let_def)
  have st: "py_strip ''0 0 0 4 0 0 4 0 x'' = ''0 0 0 4 0 0 4 0 x''"
           "py_strip ''0 0 0 4 0 0 4 0'' = ''0 0 0 4 0 0 4 0''"
    by (simp_all add: py_strip_def is_space_def)
  have p1: "parse digits_float ex_doc_token =
     [(''B1'', \<lparr> element_type = ''Building'', polygons = [[(0, 0, 0), (4, 0, 0)]], metadata = [] \<rparr>),
      (''W1'', \<lparr> element_type = ''WallSurface'', polygons = [[(0, 0, 0), (4, 0, 0)]], metadata = [] \<rparr>)]"
    by (simp add: parse_def add_building_def add_surface_def extract_geometry_def
          extract_polygon_coordinates_def ex_doc_token_def example_defs xml_query_defs
          st split_9x digits_float_tokens float3_def Let_def)
  have p2: "parse digits_float ex_doc_short =
     [(''B1'', \<lparr> element_type = ''Building'', polygons = [[(0, 0, 0), (4, 0, 0)]], metadata = [] \<rparr>),
      (''W1'', \<lparr> element_type = ''WallSurface'', polygons = [[(0, 0, 0), (4, 0, 0)]], metadata = [] \<rparr>)]"
    by (simp add: parse_def add_building_def add_surface_def extract_geometry_def
          extract_polygon_coordinates_def ex_doc_short_def example_defs xml_query_defs
          st split_8 digits_float_tokens float3_def Let_def)
  show ?thesis using g1 g2 s1 s2 p1 p2 by simp
qed

section \<open>The text pipeline: parser, groups, index\<close>

subsection \<open>The parser of parser.py\<close>

lemma extract_geometry_loops: "[] \<notin> set (polygons (extract_geometry fl e))"
  by (simp add: extract_geometry_def)

lemma kept_dict_set:
  assumes "kept gs" "polygons g \<noteq> []" "[] \<notin> set (polygons g)"
  shows "kept (dict_set gs k g)"
  using assms dict_set_subset[of gs k g] dict_set_distinct[of gs k g]
  by (auto simp: kept_def)

lemma kept_add_building: "kept gs \<Longrightarrow> kept (add_building fl gs e)"
  by (auto simp: add_building_def Let_def extract_geometry_loops intro!: kept_dict_set split: option.splits)

lemma kept_add_surface: "kept gs \<Longrightarrow> kept (add_surface fl t gs e)"
  by (auto simp: add_surface_def Let_def extract_geometry_loops intro!: kept_dict_set split: option.splits)

lemma parse_kept: "kept (parse fl doc)"
proof -
  have b: "kept (foldl (add_building fl) [] es)" for es
    by (rule foldl_invariant) (simp_all add: kept_def[of "[]"] kept_add_building)
  have s: "kept gs \<Longrightarrow> kept (foldl (add_surface fl t) gs es)" for gs t es
    by (rule foldl_invariant) (simp_all add: kept_add_surface)
  show ?thesis by (simp add: parse_def Let_def b s)
qed


lemma parse_polygons:
  "(k, g) \<in> set (parse fl doc) \<Longrightarrow> polygons g \<noteq> [] \<and> [] \<notin> set (polygons g)"
  using parse_kept[of fl doc] by (auto simp: kept_def)

subsection \<open>Group records and index entries\<close>





lemma write_metadata_objects:
  assumes "distinct (map fst geos)"
  shows "write_metadata geos off =
     \<lparr> offset = off, total_objects = length geos,
       objects = map (\<lambda>(gml_id, geo).
                   (gml_id, \<lparr> entry_element_type = element_type geo,
                              polygon_count = length (polygons geo),
                              entry_metadata = metadata geo \<rparr>)) geos \<rparr>"
  using foldl_dict_set_distinct[OF assms, of "[]"
          "\<lambda>k geo. \<lparr> entry_element_type = element_type geo, polygon_count = length (polygons geo),
                      entry_metadata = metadata geo \<rparr>"]
  by (simp add: write_metadata_def)







section \<open>The building-grouping pipeline\<close>














lemma glb_write_metadata_objects:
  assumes "distinct (map fst data)"
  shows "glb_write_metadata data off =
     \<lparr> offset = off, total_objects = length data,
       objects = map (\<lambda>(bid, info).
                   (bid, \<lparr> entry_element_type = ''Building'',
                           polygon_count = length (surfaces info),
                           entry_metadata =
                             \<lparr> meta_name = bid,
                               meta_description = description info,
                               meta_measuredHeight = measuredHeight info,
                               meta_storeysAboveGround = storeysAboveGround info,
                               meta_storeysBelowGround = storeysBelowGround info,
                               surfaceTypes = count_surface_types (surfaces info) \<rparr> \<rparr>)) data \<rparr>"
  using foldl_dict_set_distinct[OF assms, of "[]"
          "\<lambda>bid info. \<lparr> entry_element_type = ''Building'',
                           polygon_count = length (surfaces info),
                           entry_metadata =
                             \<lparr> meta_name = bid,
                               meta_description = description info,
                               meta_measuredHeight = measuredHeight info,
                               meta_storeysAboveGround = storeysAboveGround info,
                               meta_storeysBelowGround = storeysBelowGround info,
                               surfaceTypes = count_surface_types (surfaces info) \<rparr> \<rparr>"]
  by (simp add: glb_write_metadata_def)

subsection \<open>The retained rings, from the document\<close>







section \<open>The metadata index\<close>

lemma foldl_dict_set_keyed:
  assumes "distinct (map key xs)"
  shows "foldl (\<lambda>objs s. dict_set objs (key s) (val s)) [] xs = map (\<lambda>s. (key s, val s)) xs"
proof -
  have d: "distinct (map fst (map (\<lambda>s. (key s, val s)) xs))" using assms by (simp add: o_def)
  have "foldl (\<lambda>objs s. dict_set objs (key s) (val s)) [] xs
          = foldl (\<lambda>acc (k, v). dict_set acc k v) [] (map (\<lambda>s. (key s, val s)) xs)"
    by (simp add: foldl_map)
  also have "\<dots> = map (\<lambda>(k, v). (k, v)) (map (\<lambda>s. (key s, val s)) xs)"
    using foldl_dict_set_distinct[OF d, of "[]" "\<lambda>k v. v"] by simp
  finally show ?thesis by simp
qed

lemma foldl_dict_set_keyed_keys:
  "fst ` set (foldl (\<lambda>objs s. dict_set objs (key s) (val s)) acc xs) = fst ` set acc \<union> key ` set xs"
  by (induction xs arbitrary: acc) (auto simp: dict_set_keys)

lemma simple_objects_entries:
  "distinct (map fst (objects (simple_write_metadata surfs off))) \<and>
   (\<forall>(k, e) \<in> set (objects (simple_write_metadata surfs off)).
       e = \<lparr> entry_element_type = ''Surface'', polygon_count = 1, entry_metadata = k \<rparr>)"
proof -
  let ?P = "\<lambda>objs :: (string \<times> string object_entry) list. distinct (map fst objs) \<and>
     (\<forall>(k, e) \<in> set objs. e = \<lparr> entry_element_type = ''Surface'', polygon_count = 1, entry_metadata = k \<rparr>)"
  have "?P (foldl (\<lambda>objs s. dict_set objs (s_id s)
               \<lparr> entry_element_type = ''Surface'', polygon_count = 1, entry_metadata = s_id s \<rparr>) [] surfs)"
  proof (rule foldl_invariant)
    show "?P []" by simp
  next
    fix objs :: "(string \<times> string object_entry) list" and s
    assume p: "?P objs"
    let ?e = "\<lparr> entry_element_type = ''Surface'', polygon_count = 1, entry_metadata = s_id s \<rparr>"
    have "distinct (map fst (dict_set objs (s_id s) ?e))" using p by (simp add: dict_set_distinct)
    moreover have "\<forall>(k, e) \<in> set (dict_set objs (s_id s) ?e).
        e = \<lparr> entry_element_type = ''Surface'', polygon_count = 1, entry_metadata = k \<rparr>"
      using p dict_set_subset[of objs "s_id s" ?e] by auto
    ultimately show "?P (dict_set objs (s_id s) ?e)" by simp
  qed
  then show ?thesis by (simp add: simple_write_metadata_def)
qed

text \<open>
  Claim C8, for the three writers of the index. \<open>write_metadata\<close> of obj_writer.py emits
  one entry for every key of the geometry map, in the order of the map, with the element
  type of the record, the number of its polygon loops and its metadata mapping, records the
  offset as it is, and counts the keys in \<open>total_objects\<close>. \<open>write_metadata\<close> of gml2glb.py
  emits one entry for every building identifier, with the element type \<open>Building\<close>, the
  number of the retained surfaces of the building and a metadata mapping made of the
  identifier, the attributes of the building and the number of its surfaces of every
  type, records the offset as it is, and counts
  the buildings. \<open>write_metadata\<close> of simple_gml2obj.py emits exactly one entry for every
  identifier of the surface list, with the constant element type \<open>Surface\<close> and the
  identifier as metadata, and records the offset as it is; when no identifier stands twice
  in the list, every entry has the polygon count 1 and \<open>total_objects\<close> is the number of the
  identifiers.
\<close>

theorem metadata_index_entries:
  "(distinct (map fst geos) \<longrightarrow>
      write_metadata geos off =
        \<lparr> offset = off, total_objects = length geos,
          objects = map (\<lambda>(gml_id, geo).
                      (gml_id, \<lparr> entry_element_type = element_type geo,
                                 polygon_count = length (polygons geo),
                                 entry_metadata = metadata geo \<rparr>)) geos \<rparr>) \<and>
   (distinct (map fst data) \<longrightarrow>
      offset (glb_write_metadata data boff) = boff \<and>
      total_objects (glb_write_metadata data boff) = length data \<and>
      map (\<lambda>(bid, e). (bid, entry_element_type e, polygon_count e,
                         meta_name (entry_metadata e), meta_description (entry_metadata e),
                         meta_measuredHeight (entry_metadata e),
                         meta_storeysAboveGround (entry_metadata e),
                         meta_storeysBelowGround (entry_metadata e),
                         surfaceTypes (entry_metadata e)))
          (objects (glb_write_metadata data boff))
        = map (\<lambda>(bid, info). (bid, ''Building'', length (surfaces info), bid, description info,
                                measuredHeight info, storeysAboveGround info,
                                storeysBelowGround info, count_surface_types (surfaces info))) data) \<and>
   offset (simple_write_metadata surfs soff) = soff \<and>
   set (map fst (objects (simple_write_metadata surfs soff))) = set (map s_id surfs) \<and>
   distinct (map fst (objects (simple_write_metadata surfs soff))) \<and>
   (\<forall>(k, e) \<in> set (objects (simple_write_metadata surfs soff)).
       entry_element_type e = ''Surface'' \<and> entry_metadata e = k) \<and>
   (distinct (map s_id surfs) \<longrightarrow>
      simple_write_metadata surfs soff =
        \<lparr> offset = soff, total_objects = length surfs,
          objects = map (\<lambda>s. (s_id s, \<lparr> entry_element_type = ''Surface'', polygon_count = 1,
                                          entry_metadata = s_id s \<rparr>)) surfs \<rparr>)"
proof -
  have a: "distinct (map fst geos) \<longrightarrow>
      write_metadata geos off =
        \<lparr> offset = off, total_objects = length geos,
          objects = map (\<lambda>(gml_id, geo).
                      (gml_id, \<lparr> entry_element_type = element_type geo,
                                 polygon_count = length (polygons geo),
                                 entry_metadata = metadata geo \<rparr>)) geos \<rparr>"
    using write_metadata_objects by blast
  have b: "distinct (map fst data) \<longrightarrow>
      offset (glb_write_metadata data boff) = boff \<and>
      total_objects (glb_write_metadata data boff) = length data \<and>
      map (\<lambda>(bid, e). (bid, entry_element_type e, polygon_count e,
                         meta_name (entry_metadata e), meta_description (entry_metadata e),
                         meta_measuredHeight (entry_metadata e),
                         meta_storeysAboveGround (entry_metadata e),
                         meta_storeysBelowGround (entry_metadata e),
                         surfaceTypes (entry_metadata e)))
          (objects (glb_write_metadata data boff))
        = map (\<lambda>(bid, info). (bid, ''Building'', length (surfaces info), bid, description info,
                                measuredHeight info, storeysAboveGround info,
                                storeysBelowGround info, count_surface_types (surfaces info))) data"
  proof
    assume d: "distinct (map fst data)"
    show "offset (glb_write_metadata data boff) = boff \<and>
      total_objects (glb_write_metadata data boff) = length data \<and>
      map (\<lambda>(bid, e). (bid, entry_element_type e, polygon_count e,
                         meta_name (entry_metadata e), meta_description (entry_metadata e),
                         meta_measuredHeight (entry_metadata e),
                         meta_storeysAboveGround (entry_metadata e),
                         meta_storeysBelowGround (entry_metadata e),
                         surfaceTypes (entry_metadata e)))
          (objects (glb_write_metadata data boff))
        = map (\<lambda>(bid, info). (bid, ''Building'', length (surfaces info), bid, description info,
                                measuredHeight info, storeysAboveGround info,
                                storeysBelowGround info, count_surface_types (surfaces info))) data"
      by (simp add: glb_write_metadata_objects[OF d] o_def split_def)
  qed
  have c1: "offset (simple_write_metadata surfs soff) = soff"
    by (simp add: simple_write_metadata_def)
  have c2: "set (map fst (objects (simple_write_metadata surfs soff))) = set (map s_id surfs)"
    using foldl_dict_set_keyed_keys[of s_id _ "[]" surfs]
    by (simp add: simple_write_metadata_def)
  have c3: "distinct (map fst (objects (simple_write_metadata surfs soff)))"
    using simple_objects_entries by blast
  have c4: "\<forall>(k, e) \<in> set (objects (simple_write_metadata surfs soff)).
       entry_element_type e = ''Surface'' \<and> entry_metadata e = k"
    using simple_objects_entries[of surfs soff] by fastforce
  have c5: "distinct (map s_id surfs) \<longrightarrow>
      simple_write_metadata surfs soff =
        \<lparr> offset = soff, total_objects = length surfs,
          objects = map (\<lambda>s. (s_id s, \<lparr> entry_element_type = ''Surface'', polygon_count = 1,
                                          entry_metadata = s_id s \<rparr>)) surfs \<rparr>"
    by (simp add: simple_write_metadata_def foldl_dict_set_keyed)
  show ?thesis using a b c1 c2 c3 c4 c5 by blast
qed

theorem metadata_index_entries_witness:
  "distinct (map fst ex_geos) \<and>
   write_metadata ex_geos (1, 3, 4) =
     \<lparr> offset = (1, 3, 4), total_objects = 2,
       objects = [(''B1'', \<lparr> entry_element_type = ''Building'', polygon_count = 2,
                             entry_metadata = [(''name'', Some ''Hall'')] \<rparr>),
                  (''W1'', \<lparr> entry_element_type = ''WallSurface'', polygon_count = 1,
                             entry_metadata = [] \<rparr>)] \<rparr> \<and>
   distinct (map fst ex_buildings) \<and>
   offset (glb_write_metadata ex_buildings (0, 0, 0)) = (0, 0, 0) \<and>
   total_objects (glb_write_metadata ex_buildings (0, 0, 0)) = 2 \<and>
   map (\<lambda>(bid, e). (bid, entry_element_type e, polygon_count e,
                      meta_name (entry_metadata e), meta_description (entry_metadata e),
                      meta_measuredHeight (entry_metadata e),
                      meta_storeysAboveGround (entry_metadata e),
                      meta_storeysBelowGround (entry_metadata e),
                      surfaceTypes (entry_metadata e)))
       (objects (glb_write_metadata ex_buildings (0, 0, 0)))
     = [(''B0'', ''Building'', 0, ''B0'', None, None, None, None, []),
        (''B2'', ''Building'', 1, ''B2'', Some ''Hall'', Some 6, Some 2, None,
         [(''WallSurface'', 1)])] \<and>
   distinct (map s_id ex_wall_surfaces) \<and>
   simple_write_metadata ex_wall_surfaces (0, 0, 0) =
     \<lparr> offset = (0, 0, 0), total_objects = 2,
       objects = [(''W1'', \<lparr> entry_element_type = ''Surface'', polygon_count = 1,
                             entry_metadata = ''W1'' \<rparr>),
                  (''W2'', \<lparr> entry_element_type = ''Surface'', polygon_count = 1,
                             entry_metadata = ''W2'' \<rparr>)] \<rparr>"
proof -
  have d1: "distinct (map fst ex_geos)" by (simp add: ex_geos_def)
  have d2: "distinct (map fst ex_buildings)" by (simp add: ex_buildings_def)
  have d3: "distinct (map s_id ex_wall_surfaces)" by (simp add: ex_wall_surfaces_def)
  note t = metadata_index_entries[of ex_geos "(1, 3, 4)" ex_buildings "(0, 0, 0)"
             ex_wall_surfaces "(0, 0, 0)"]
  have a: "write_metadata ex_geos (1, 3, 4) =
     \<lparr> offset = (1, 3, 4), total_objects = 2,
       objects = [(''B1'', \<lparr> entry_element_type = ''Building'', polygon_count = 2,
                             entry_metadata = [(''name'', Some ''Hall'')] \<rparr>),
                  (''W1'', \<lparr> entry_element_type = ''WallSurface'', polygon_count = 1,
                             entry_metadata = [] \<rparr>)] \<rparr>"
    using t d1 by (simp add: ex_geos_def)
  have b: "offset (glb_write_metadata ex_buildings (0, 0, 0)) = (0, 0, 0) \<and>
   total_objects (glb_write_metadata ex_buildings (0, 0, 0)) = 2 \<and>
   map (\<lambda>(bid, e). (bid, entry_element_type e, polygon_count e,
                      meta_name (entry_metadata e), meta_description (entry_metadata e),
                      meta_measuredHeight (entry_metadata e),
                      meta_storeysAboveGround (entry_metadata e),
                      meta_storeysBelowGround (entry_metadata e),
                      surfaceTypes (entry_metadata e)))
       (objects (glb_write_metadata ex_buildings (0, 0, 0)))
     = [(''B0'', ''Building'', 0, ''B0'', None, None, None, None, []),
        (''B2'', ''Building'', 1, ''B2'', Some ''Hall'', Some 6, Some 2, None,
         [(''WallSurface'', 1)])]"
    using t d2 by (simp add: ex_buildings_def count_surface_types_def dict_get_def)
  have c: "simple_write_metadata ex_wall_surfaces (0, 0, 0) =
     \<lparr> offset = (0, 0, 0), total_objects = 2,
       objects = [(''W1'', \<lparr> entry_element_type = ''Surface'', polygon_count = 1,
                             entry_metadata = ''W1'' \<rparr>),
                  (''W2'', \<lparr> entry_element_type = ''Surface'', polygon_count = 1,
                             entry_metadata = ''W2'' \<rparr>)] \<rparr>"
    using t d3 by (simp add: ex_wall_surfaces_def)
  show ?thesis using d1 d2 d3 a b c by simp
qed

text \<open>
  Claim C8 as it is written, for the writer of simple_gml2obj.py. The roof surface \<open>R1\<close>
  of the example document holds two polygons, which the parser lists as two entries of the
  type \<open>RoofSurface\<close>. The index has one entry for \<open>R1\<close>: its element type is \<open>Surface\<close>,
  its polygon count is 1, and \<open>total_objects\<close> is 2.
\<close>

theorem simple_index_counts_polygons:
  "simple_parse_citygml digits_float ex_doc_roof = Inr ex_roof_surfaces \<and>
   map s_id ex_roof_surfaces = [''R1'', ''R1''] \<and>
   map s_type ex_roof_surfaces = [''RoofSurface'', ''RoofSurface''] \<and>
   simple_write_metadata ex_roof_surfaces (0, 0, 6) =
     \<lparr> offset = (0, 0, 6), total_objects = 2,
       objects = [(''R1'', \<lparr> entry_element_type = ''Surface'', polygon_count = 1,
                             entry_metadata = ''R1'' \<rparr>)] \<rparr>"
proof -
  have s1: "py_split ''0 0 6 4 0 6 4 2 6'' = [''0'', ''0'', ''6'', ''4'', ''0'', ''6'', ''4'', ''2'', ''6'']"
    by (simp add: py_split_def is_space_def)
  have s2: "py_split ''4 2 6 0 2 6 0 0 6'' = [''4'', ''2'', ''6'', ''0'', ''2'', ''6'', ''0'', ''0'', ''6'']"
    by (simp add: py_split_def is_space_def)
  have p: "simple_parse_citygml digits_float ex_doc_roof = Inr ex_roof_surfaces"
    by (simp add: simple_parse_citygml_def simple_add_surface_def simple_add_polygon_def
          simple_surface_tags_def ex_doc_roof_def ex_roof_surfaces_def example_defs xml_query_defs
          s1 s2 digits_float_tokens err_bind_def Let_def)
  show ?thesis
    using p by (simp add: simple_write_metadata_def ex_roof_surfaces_def)
qed

section \<open>The example document with degenerate rings\<close>


lemma sp5: "py_split ''0 0 0 4 0 0'' = [''0'', ''0'', ''0'', ''4'', ''0'', ''0'']"
           "py_split ''0 0 0 4 0 0 4 2 6'' = [''0'', ''0'', ''0'', ''4'', ''0'', ''0'', ''4'', ''2'', ''6'']"
  by (simp_all add: py_split_def is_space_def)






lemma show_nat_digits:
  "show_nat 0 = ''0''" "show_nat 1 = ''1''" "show_nat 2 = ''2''" "show_nat 3 = ''3''"
  "show_nat 4 = ''4''" "show_nat 6 = ''6''"
  "show_nat (Suc 0) = ''1''" "show_nat (Suc (Suc 0)) = ''2''" "show_nat (Suc (Suc (Suc 0))) = ''3''"
  by (simp_all add: char_of_def bit_0 bit_Suc)

lemma ex_degenerate_simple_parse:
  "simple_parse_citygml digits_float ex_doc_degenerate =
     Inr [\<lparr> s_id = ''W2'', s_type = ''WallSurface'',
            s_points = [(0, 0, 0), (4, 0, 0), (4, 2, 6)], start_vertex = 1 \<rparr>]"
  by (simp add: simple_parse_citygml_def simple_add_surface_def simple_add_polygon_def
        simple_surface_tags_def found_text_def ex_doc_degenerate_def example_defs xml_query_defs
        sp5 digits_float_tokens err_bind_def Let_def)

section \<open>Objects without polygons\<close>










section \<open>Index keys and group records\<close>

text \<open>
  Claim C4, for simple_gml2obj.py at the example document with the degenerate rings. The
  metadata index of the run has the key \<open>W2\<close> with the polygon count 1. Every string
  literal of \<^verbatim>\<open>write_obj\<close> ends in an escaped backslash followed by the letter n, so that
  the text of the mesh file, the concatenation of the written strings, holds no line feed:
  the file is one single line, which starts with the comment sign, and no line of it is the
  group record \<open>g W2\<close>.
\<close>

theorem simple_obj_text_names_no_group:
  "simple_main digits_float ex_str_float ex_str_point ''city.mtl'' ex_doc_degenerate =
     Inr (Some (ex_simple_writes,
                \<lparr> offset = (0, 0, 0), total_objects = 1,
                  objects = [(''W2'', \<lparr> entry_element_type = ''Surface'', polygon_count = 1,
                                        entry_metadata = ''W2'' \<rparr>)] \<rparr>)) \<and>
   LF \<notin> set (concat ex_simple_writes) \<and>
   file_lines (concat ex_simple_writes) = [concat ex_simple_writes] \<and>
   \<not> names_group (concat ex_simple_writes) ''W2''"
proof -
  have m: "simple_main digits_float ex_str_float ex_str_point ''city.mtl'' ex_doc_degenerate =
     Inr (Some (ex_simple_writes,
                \<lparr> offset = (0, 0, 0), total_objects = 1,
                  objects = [(''W2'', \<lparr> entry_element_type = ''Surface'', polygon_count = 1,
                                        entry_metadata = ''W2'' \<rparr>)] \<rparr>))"
    by (simp add: simple_main_def ex_degenerate_simple_parse err_bind_def
          simple_calculate_offset_def simple_write_obj_def simple_write_surface_def
          simple_write_metadata_def face_text_def ex_simple_writes_def
          ex_str_float_def ex_str_point_def show_nat_digits col_min_def px_def py_def pz_def
          Let_def del: show_nat.simps)
  have n: "LF \<notin> set (concat ex_simple_writes)"
    by (simp add: ex_simple_writes_def backslash_n_def LF_def)
  have l: "file_lines (concat ex_simple_writes) = [concat ex_simple_writes]"
    using n lines_from_no_lf[of "concat ex_simple_writes" "[]" "[]"]
    by (simp add: file_lines_def LF_def)
  have g: "\<not> names_group (concat ex_simple_writes) ''W2''"
    unfolding names_group_def l by (simp add: ex_simple_writes_def)
  show ?thesis using m n l g by (intro conjI)
qed

end
